theory Spec2Isabelle
  imports Complex_Main "HOL-Library.Word"
begin

unbundle bit_operations_syntax

section \<open>Bytes, exceptions and the socket environment\<close>

text \<open>
  The PLC integration layer of \<^verbatim>\<open>src/plc_integration.py\<close> talks to two kinds of
  controllers over raw TCP sockets. Python \<^verbatim>\<open>bytes\<close> are lists of 8-bit words, Python
  integers are \<^typ>\<open>int\<close>, and every exception the source can raise is a value of
  \<open>exn\<close>; a function that may raise returns \<open>exn + 'a\<close> with \<open>Inl\<close> the exception.
\<close>

type_synonym byte = "8 word"

datatype exn = ValueError | StructError | TypeError | AttributeError | OSError

text \<open>
  One request/response exchange on a socket is \<^verbatim>\<open>socket.send(request)\<close> followed by
  \<^verbatim>\<open>socket.recv(1024)\<close>. What the peer and the network do is not decided by the
  program: the \<open>n\<close>-th exchange either fails while sending, fails while receiving
  (a timeout is raised there), or delivers the bytes of a reply.
\<close>

datatype exchange = SendError | RecvError | Reply "byte list"

record world =
  tcp_accepts :: "nat \<Rightarrow> bool"       \<comment> \<open>does the \<open>n\<close>-th \<^verbatim>\<open>socket.connect\<close> succeed\<close>
  replies :: "nat \<Rightarrow> exchange"        \<comment> \<open>outcome of the \<open>n\<close>-th exchange\<close>
  n_socks :: nat                       \<comment> \<open>sockets created so far; the next handle\<close>
  n_exch :: nat                        \<comment> \<open>exchanges performed so far\<close>
  wire :: "(nat \<times> byte list) list"     \<comment> \<open>requests sent: socket handle and bytes, oldest first\<close>
  closed :: "nat set"                  \<comment> \<open>handles on which \<^verbatim>\<open>close()\<close> was called\<close>

text \<open>\<^verbatim>\<open>socket.socket(...)\<close>, \<^verbatim>\<open>settimeout(10)\<close> and \<^verbatim>\<open>connect(...)\<close>: a new handle is
  created, then the connect succeeds or raises.\<close>

definition socket_connect :: "world \<Rightarrow> nat \<times> bool \<times> world" where
  "socket_connect w = (n_socks w, tcp_accepts w (n_socks w), w\<lparr>n_socks := Suc (n_socks w)\<rparr>)"

text \<open>\<^verbatim>\<open>self.socket.send(request); response = self.socket.recv(1024)\<close>. With
  \<^verbatim>\<open>self.socket\<close> equal to \<^verbatim>\<open>None\<close> the attribute access raises.\<close>

definition transact :: "nat option \<Rightarrow> byte list \<Rightarrow> world \<Rightarrow> (exn + byte list) \<times> world" where
  "transact sock request w =
     (case sock of
        None \<Rightarrow> (Inl AttributeError, w)
      | Some s \<Rightarrow>
          (case replies w (n_exch w) of
             SendError \<Rightarrow> (Inl OSError, w\<lparr>n_exch := Suc (n_exch w)\<rparr>)
           | RecvError \<Rightarrow>
               (Inl OSError, w\<lparr>n_exch := Suc (n_exch w), wire := wire w @ [(s, request)]\<rparr>)
           | Reply bs \<Rightarrow>
               (Inr (take 1024 bs),
                w\<lparr>n_exch := Suc (n_exch w), wire := wire w @ [(s, request)]\<rparr>)))"

text \<open>\<^verbatim>\<open>bytearray([...])\<close> raises \<^verbatim>\<open>ValueError\<close> unless every element is in
  \<^verbatim>\<open>range(256)\<close>.\<close>

definition bytearray :: "int list \<Rightarrow> exn + byte list" where
  "bytearray xs =
     (if list_all (\<lambda>x. 0 \<le> x \<and> x < 256) xs then Inr (map word_of_int xs) else Inl ValueError)"

text \<open>The Python slice \<^verbatim>\<open>b[lo:hi]\<close> for \<open>0 \<le> lo \<le> hi\<close>; it never raises and is
  shorter than \<open>hi - lo\<close> when \<open>b\<close> ends early.\<close>

definition slice :: "'a list \<Rightarrow> nat \<Rightarrow> nat \<Rightarrow> 'a list" where
  "slice b lo hi = take (hi - lo) (drop lo b)"

section \<open>Siemens S7 client\<close>

record siemens_client =
  s7_ip_address :: string
  s7_rack :: int
  s7_slot :: int
  s7_socket :: "nat option"
  s7_connected :: bool
  s7_connection_id :: int

definition SiemensS7Client :: "string \<Rightarrow> siemens_client" where
  "SiemensS7Client ip =
     \<lparr>s7_ip_address = ip, s7_rack = 0, s7_slot = 1, s7_socket = None,
      s7_connected = False, s7_connection_id = 0\<rparr>"

definition s7_disconnect :: "siemens_client \<Rightarrow> world \<Rightarrow> siemens_client \<times> world" where
  "s7_disconnect c w =
     (case s7_socket c of
        Some s \<Rightarrow> (c\<lparr>s7_socket := None, s7_connected := False\<rparr>, w\<lparr>closed := insert s (closed w)\<rparr>)
      | None \<Rightarrow> (c\<lparr>s7_connected := False\<rparr>, w))"

definition iso_cr :: "byte list" where
  "iso_cr = [0x03, 0x00, 0x00, 0x16,
             0x11, 0xE0, 0x00, 0x00, 0x00, 0x01, 0x00,
             0xC0, 0x01, 0x0A,
             0xC1, 0x02, 0x01, 0x00,
             0xC2, 0x02, 0x01, 0x02]"

definition send_connection_request :: "siemens_client \<Rightarrow> world \<Rightarrow> bool \<times> world" where
  "send_connection_request c w =
     (case transact (s7_socket c) iso_cr w of
        (Inl e, w') \<Rightarrow> (False, w')
      | (Inr response, w') \<Rightarrow> (length response \<ge> 6 \<and> response ! 5 = 0xD0, w'))"

definition s7_connect :: "siemens_client \<Rightarrow> world \<Rightarrow> bool \<times> siemens_client \<times> world" where
  "s7_connect c w =
     (case socket_connect w of
        (s, ok, w1) \<Rightarrow>
          (let c1 = c\<lparr>s7_socket := Some s\<rparr> in
           if \<not> ok then (case s7_disconnect c1 w1 of (c2, w2) \<Rightarrow> (False, c2, w2))
           else (case send_connection_request c1 w1 of
                   (True, w2) \<Rightarrow> (True, c1\<lparr>s7_connected := True\<rparr>, w2)
                 | (False, w2) \<Rightarrow> (case s7_disconnect c1 w2 of (c3, w3) \<Rightarrow> (False, c3, w3)))))"

definition build_read_request :: "int \<Rightarrow> int \<Rightarrow> int \<Rightarrow> exn + byte list" where
  "build_read_request db_number start sz =
     bytearray [0x03, 0x00, 0x00, 0x1F,
                0x02, 0xF0, 0x80,
                0x32, 0x01, 0x00, 0x00, 0x00, 0x00, 0x00, 0x0E,
                0x00, 0x00, 0x04, 0x01,
                0x12, 0x0A, 0x10, 0x02,
                0x00, 0x01,
                0x00, db_number,
                0x84,
                drop_bit 16 start, drop_bit 8 start, start AND 0xFF,
                0x00, drop_bit 8 sz, sz AND 0xFF]"

definition build_write_request :: "int \<Rightarrow> int \<Rightarrow> byte list \<Rightarrow> exn + byte list" where
  "build_write_request db_number start data =
     (let sz = int (length data) in
      case bytearray [0x03, 0x00, 0x00, 0x1F + sz,
                      0x02, 0xF0, 0x80,
                      0x32, 0x01, 0x00, 0x00, 0x00, 0x00, 0x00, 0x0E,
                      0x00, 0x00, 0x05, 0x01,
                      0x12, 0x0A, 0x10, 0x02,
                      0x00, 0x01,
                      0x00, db_number,
                      0x84,
                      drop_bit 16 start, drop_bit 8 start, start AND 0xFF,
                      0x00, drop_bit 8 sz, sz AND 0xFF] of
        Inl e \<Rightarrow> Inl e
      | Inr request \<Rightarrow> Inr (request @ data))"

definition parse_read_response :: "byte list \<Rightarrow> byte list option" where
  "parse_read_response response =
     (if length response < 25 then None
      else if response ! 21 = 0xFF then
        (let data_length = nat (push_bit 8 (uint (response ! 23)) OR uint (response ! 24)) in
         if length response \<ge> 25 + data_length
         then Some (slice response 25 (25 + data_length))
         else None)
      else None)"

definition s7_parse_write_response :: "byte list \<Rightarrow> bool" where
  "s7_parse_write_response response =
     (if length response < 22 then False else response ! 21 = 0xFF)"

text \<open>\<^verbatim>\<open>read_db\<close> and \<^verbatim>\<open>write_db\<close> wrap request building and the exchange in
  \<^verbatim>\<open>try ... except Exception\<close>: every exception becomes \<^verbatim>\<open>None\<close> or \<^verbatim>\<open>False\<close>, and
  the handler does nothing else.\<close>

definition read_db ::
  "siemens_client \<Rightarrow> int \<Rightarrow> int \<Rightarrow> int \<Rightarrow> world \<Rightarrow> byte list option \<times> siemens_client \<times> world" where
  "read_db c db_number start sz w =
     (if \<not> s7_connected c then (None, c, w)
      else case build_read_request db_number start sz of
             Inl e \<Rightarrow> (None, c, w)
           | Inr read_request \<Rightarrow>
               (case transact (s7_socket c) read_request w of
                  (Inl e, w') \<Rightarrow> (None, c, w')
                | (Inr response, w') \<Rightarrow> (parse_read_response response, c, w')))"

definition write_db ::
  "siemens_client \<Rightarrow> int \<Rightarrow> int \<Rightarrow> byte list \<Rightarrow> world \<Rightarrow> bool \<times> siemens_client \<times> world" where
  "write_db c db_number start data w =
     (if \<not> s7_connected c then (False, c, w)
      else case build_write_request db_number start data of
             Inl e \<Rightarrow> (False, c, w)
           | Inr write_request \<Rightarrow>
               (case transact (s7_socket c) write_request w of
                  (Inl e, w') \<Rightarrow> (False, c, w')
                | (Inr response, w') \<Rightarrow> (s7_parse_write_response response, c, w')))"

section \<open>\<^verbatim>\<open>struct\<close> packing and unpacking\<close>

text \<open>The big-endian formats the source uses: \<^verbatim>\<open>B\<close> (one unsigned byte), \<^verbatim>\<open>H\<close>
  (unsigned 16 bit), \<^verbatim>\<open>h\<close> (signed 16 bit) and \<^verbatim>\<open>f\<close> (IEEE-754 single). \<^verbatim>\<open>struct.pack\<close>
  raises \<^verbatim>\<open>struct.error\<close> on a value out of the format's range, \<^verbatim>\<open>struct.unpack\<close>
  raises it unless the buffer has exactly the format's size.\<close>

datatype fmt = Fmt_B | Fmt_H

fun pack_field :: "fmt \<Rightarrow> int \<Rightarrow> exn + byte list" where
  "pack_field Fmt_B x = (if 0 \<le> x \<and> x \<le> 255 then Inr [word_of_int x] else Inl StructError)"
| "pack_field Fmt_H x =
     (if 0 \<le> x \<and> x \<le> 65535 then Inr [word_of_int (drop_bit 8 x), word_of_int x]
      else Inl StructError)"

fun struct_pack :: "(fmt \<times> int) list \<Rightarrow> exn + byte list" where
  "struct_pack [] = Inr []"
| "struct_pack ((f, x) # fs) =
     (case pack_field f x of
        Inl e \<Rightarrow> Inl e
      | Inr bs \<Rightarrow> (case struct_pack fs of Inl e \<Rightarrow> Inl e | Inr rest \<Rightarrow> Inr (bs @ rest)))"

definition from_bytes_be :: "byte list \<Rightarrow> int" where
  "from_bytes_be bs = foldl (\<lambda>acc b. acc * 256 + uint b) 0 bs"

definition unpack_H :: "byte list \<Rightarrow> exn + int" where
  "unpack_H bs = (if length bs = 2 then Inr (from_bytes_be bs) else Inl StructError)"

definition unpack_h :: "byte list \<Rightarrow> exn + int" where
  "unpack_h bs =
     (if length bs = 2 then Inr (sint (word_of_int (from_bytes_be bs) :: 16 word))
      else Inl StructError)"

text \<open>\<^verbatim>\<open>struct.unpack('>f', ...)\<close> reads an IEEE-754 single and returns a Python float, a
  double. The conversion from single to double is exact, except that it turns a
  signalling NaN (exponent all ones, bit 22 clear, a non-zero rest of the mantissa)
  into the quiet NaN with the same payload (bit 22 set). A Python float obtained this
  way is kept as the 32 bits of the single it equals; the arithmetic of floats is not
  interpreted.\<close>

definition is_signalling_nan :: "32 word \<Rightarrow> bool" where
  "is_signalling_nan b =
     (b AND 0x7F800000 = 0x7F800000 \<and> b AND 0x00400000 = 0 \<and> b AND 0x003FFFFF \<noteq> 0)"

definition quiet_nan :: "32 word \<Rightarrow> 32 word" where
  "quiet_nan b = (if is_signalling_nan b then b OR 0x00400000 else b)"

definition unpack_f :: "byte list \<Rightarrow> exn + 32 word" where
  "unpack_f bs =
     (if length bs = 4 then Inr (quiet_nan (word_of_int (from_bytes_be bs)))
      else Inl StructError)"

text \<open>\<^verbatim>\<open>struct.pack('>I', x)\<close>: an unsigned 32-bit integer as 4 big-endian bytes.\<close>

definition pack_I :: "int \<Rightarrow> exn + byte list" where
  "pack_I x =
     (if 0 \<le> x \<and> x \<le> 4294967295
      then Inr [word_of_int (drop_bit 24 x), word_of_int (drop_bit 16 x),
                word_of_int (drop_bit 8 x), word_of_int x]
      else Inl StructError)"

text \<open>The decoding of two holding registers as one float, as
  \<^verbatim>\<open>_read_schneider_sensor_data\<close> does it for a list of exactly two values:
  \<^verbatim>\<open>combined = (values[0] << 16) | values[1]\<close>, then
  \<^verbatim>\<open>struct.unpack('>f', struct.pack('>I', combined))[0]\<close>.\<close>

definition decode_register_float :: "int list \<Rightarrow> exn + 32 word" where
  "decode_register_float values =
     (let combined = push_bit 16 (values ! 0) OR values ! 1 in
      case pack_I combined of Inl e \<Rightarrow> Inl e | Inr bs \<Rightarrow> unpack_f bs)"

section \<open>Schneider Modicon client (Modbus TCP)\<close>

record schneider_client =
  mb_ip_address :: string
  mb_port :: int
  mb_unit_id :: int
  mb_socket :: "nat option"
  mb_connected :: bool
  transaction_id :: int

definition SchneiderModiconClient :: "string \<Rightarrow> int \<Rightarrow> schneider_client" where
  "SchneiderModiconClient ip port =
     \<lparr>mb_ip_address = ip, mb_port = port, mb_unit_id = 1, mb_socket = None,
      mb_connected = False, transaction_id = 0\<rparr>"

definition mb_disconnect :: "schneider_client \<Rightarrow> world \<Rightarrow> schneider_client \<times> world" where
  "mb_disconnect c w =
     (case mb_socket c of
        Some s \<Rightarrow> (c\<lparr>mb_socket := None, mb_connected := False\<rparr>, w\<lparr>closed := insert s (closed w)\<rparr>)
      | None \<Rightarrow> (c\<lparr>mb_connected := False\<rparr>, w))"

definition mb_connect :: "schneider_client \<Rightarrow> world \<Rightarrow> bool \<times> schneider_client \<times> world" where
  "mb_connect c w =
     (case socket_connect w of
        (s, ok, w1) \<Rightarrow>
          (let c1 = c\<lparr>mb_socket := Some s\<rparr> in
           if ok then (True, c1\<lparr>mb_connected := True\<rparr>, w1)
           else (case mb_disconnect c1 w1 of (c2, w2) \<Rightarrow> (False, c2, w2))))"

definition build_modbus_request :: "schneider_client \<Rightarrow> int \<Rightarrow> int \<Rightarrow> int \<Rightarrow> exn + byte list" where
  "build_modbus_request c function_code address data =
     struct_pack [(Fmt_H, transaction_id c), (Fmt_H, 0x0000), (Fmt_H, 0x0006),
                  (Fmt_B, mb_unit_id c), (Fmt_B, function_code),
                  (Fmt_H, address), (Fmt_H, data)]"

text \<open>\<^verbatim>\<open>b''.join(struct.pack('>H', value) for value in values)\<close>\<close>

fun pack_values :: "int list \<Rightarrow> exn + byte list" where
  "pack_values [] = Inr []"
| "pack_values (v # vs) =
     (case pack_field Fmt_H v of
        Inl e \<Rightarrow> Inl e
      | Inr bs \<Rightarrow> (case pack_values vs of Inl e \<Rightarrow> Inl e | Inr rest \<Rightarrow> Inr (bs @ rest)))"

definition build_modbus_write_multiple_request ::
  "schneider_client \<Rightarrow> int \<Rightarrow> int list \<Rightarrow> exn + byte list" where
  "build_modbus_write_multiple_request c address values =
     (let count = int (length values); byte_count = count * 2 in
      case struct_pack [(Fmt_H, transaction_id c), (Fmt_H, 0x0000), (Fmt_H, 7 + byte_count),
                        (Fmt_B, mb_unit_id c), (Fmt_B, 0x10),
                        (Fmt_H, address), (Fmt_H, count), (Fmt_B, byte_count)] of
        Inl e \<Rightarrow> Inl e
      | Inr header \<Rightarrow>
          (case pack_values values of Inl e \<Rightarrow> Inl e | Inr data \<Rightarrow> Inr (header @ data)))"

text \<open>The loop \<^verbatim>\<open>for i in range(byte_count // 2)\<close> of \<^verbatim>\<open>_parse_read_registers_response\<close>,
  over the indices still to visit.\<close>

fun registers_loop :: "byte list \<Rightarrow> nat list \<Rightarrow> int list \<Rightarrow> exn + int list" where
  "registers_loop response [] values = Inr values"
| "registers_loop response (i # is) values =
     (case unpack_H (slice response (9 + i * 2) (11 + i * 2)) of
        Inl e \<Rightarrow> Inl e
      | Inr v \<Rightarrow> registers_loop response is (values @ [v]))"

definition parse_read_registers_response :: "byte list \<Rightarrow> exn + int list option" where
  "parse_read_registers_response response =
     (if length response < 9 then Inr None
      else
        (let func_code = response ! 7; byte_count = unat (response ! 8) in
         if func_code AND 0x80 \<noteq> 0 then Inr None
         else (case registers_loop response [0 ..< byte_count div 2] [] of
                 Inl e \<Rightarrow> Inl e
               | Inr values \<Rightarrow> Inr (Some values))))"

definition mb_parse_write_response :: "byte list \<Rightarrow> bool" where
  "mb_parse_write_response response =
     (if length response < 8 then False
      else (let func_code = response ! 7 in \<not> (func_code AND 0x80 \<noteq> 0)))"

text \<open>The three request methods increment \<^verbatim>\<open>self.transaction_id\<close> as the first
  statement inside \<^verbatim>\<open>try\<close>, and turn every exception into \<^verbatim>\<open>None\<close> or \<^verbatim>\<open>False\<close>.\<close>

definition read_holding_registers ::
  "schneider_client \<Rightarrow> int \<Rightarrow> int \<Rightarrow> world \<Rightarrow> int list option \<times> schneider_client \<times> world" where
  "read_holding_registers c address count w =
     (if \<not> mb_connected c then (None, c, w)
      else
        (let c1 = c\<lparr>transaction_id := transaction_id c + 1\<rparr> in
         case build_modbus_request c1 0x03 address count of
           Inl e \<Rightarrow> (None, c1, w)
         | Inr request \<Rightarrow>
             (case transact (mb_socket c1) request w of
                (Inl e, w') \<Rightarrow> (None, c1, w')
              | (Inr response, w') \<Rightarrow>
                  (case parse_read_registers_response response of
                     Inl e \<Rightarrow> (None, c1, w')
                   | Inr r \<Rightarrow> (r, c1, w')))))"

definition write_single_register ::
  "schneider_client \<Rightarrow> int \<Rightarrow> int \<Rightarrow> world \<Rightarrow> bool \<times> schneider_client \<times> world" where
  "write_single_register c address v w =
     (if \<not> mb_connected c then (False, c, w)
      else
        (let c1 = c\<lparr>transaction_id := transaction_id c + 1\<rparr> in
         case build_modbus_request c1 0x06 address v of
           Inl e \<Rightarrow> (False, c1, w)
         | Inr request \<Rightarrow>
             (case transact (mb_socket c1) request w of
                (Inl e, w') \<Rightarrow> (False, c1, w')
              | (Inr response, w') \<Rightarrow> (mb_parse_write_response response, c1, w'))))"

definition write_multiple_registers ::
  "schneider_client \<Rightarrow> int \<Rightarrow> int list \<Rightarrow> world \<Rightarrow> bool \<times> schneider_client \<times> world" where
  "write_multiple_registers c address values w =
     (if \<not> mb_connected c then (False, c, w)
      else
        (let c1 = c\<lparr>transaction_id := transaction_id c + 1\<rparr> in
         case build_modbus_write_multiple_request c1 address values of
           Inl e \<Rightarrow> (False, c1, w)
         | Inr request \<Rightarrow>
             (case transact (mb_socket c1) request w of
                (Inl e, w') \<Rightarrow> (False, c1, w')
              | (Inr response, w') \<Rightarrow> (mb_parse_write_response response, c1, w'))))"

section \<open>The integration service\<close>

text \<open>
  \<^verbatim>\<open>PLCIntegrationService\<close> keeps three dictionaries keyed by factory id. The vendor
  dictionaries and the \<^verbatim>\<open>'client'\<close> field of an active connection refer to the same
  client object, so client objects live in a store and the dictionaries hold
  references to them.
\<close>

datatype client_obj = S7 siemens_client | Modbus schneider_client

record connection =
  conn_type :: string
  conn_client :: nat
  connected_at :: nat

record service =
  heap :: "nat \<rightharpoonup> client_obj"
  next_ref :: nat
  siemens_clients :: "string \<rightharpoonup> nat"
  schneider_clients :: "string \<rightharpoonup> nat"
  active_connections :: "string \<rightharpoonup> connection"

definition PLCIntegrationService :: service where
  "PLCIntegrationService =
     \<lparr>heap = Map.empty, next_ref = 0, siemens_clients = Map.empty,
      schneider_clients = Map.empty, active_connections = Map.empty\<rparr>"

text \<open>The columns of a \<^verbatim>\<open>Factory\<close> row that the service reads; the table itself
  (\<^verbatim>\<open>Factory.query.get\<close>) is a map from factory id to row.\<close>

record factory =
  plc_type :: "string option"
  plc_ip :: "string option"
  plc_port :: "int option"

definition truthy_str :: "string option \<Rightarrow> bool" where
  "truthy_str x = (case x of None \<Rightarrow> False | Some t \<Rightarrow> t \<noteq> [])"

definition startswith :: "string \<Rightarrow> string \<Rightarrow> bool" where
  "startswith t p = (take (length p) t = p)"

definition connect_to_factory_plcs ::
  "(string \<rightharpoonup> factory) \<Rightarrow> nat \<Rightarrow> service \<Rightarrow> string \<Rightarrow> world
     \<Rightarrow> (string \<rightharpoonup> bool) \<times> service \<times> world" where
  "connect_to_factory_plcs factories utcnow sv factory_id w =
     (case factories factory_id of
        None \<Rightarrow> (Map.empty, sv, w)
      | Some fac \<Rightarrow>
          if truthy_str (plc_type fac) \<and> truthy_str (plc_ip fac) then
            if startswith (the (plc_type fac)) ''siemens'' then
              (case s7_connect (SiemensS7Client (the (plc_ip fac))) w of
                 (ok, client, w') \<Rightarrow>
                   (let r = next_ref sv;
                        sv1 = sv\<lparr>heap := (heap sv)(r \<mapsto> S7 client), next_ref := Suc r\<rparr> in
                    if ok then
                      (Map.empty(factory_id \<mapsto> True),
                       sv1\<lparr>siemens_clients := (siemens_clients sv)(factory_id \<mapsto> r),
                           active_connections := (active_connections sv)(factory_id \<mapsto>
                             \<lparr>conn_type = ''siemens'', conn_client = r, connected_at = utcnow\<rparr>)\<rparr>,
                       w')
                    else (Map.empty(factory_id \<mapsto> False), sv1, w')))
            else if startswith (the (plc_type fac)) ''schneider'' then
              (let port = (case plc_port fac of None \<Rightarrow> 502 | Some p \<Rightarrow> if p = 0 then 502 else p) in
               case mb_connect (SchneiderModiconClient (the (plc_ip fac)) port) w of
                 (ok, client, w') \<Rightarrow>
                   (let r = next_ref sv;
                        sv1 = sv\<lparr>heap := (heap sv)(r \<mapsto> Modbus client), next_ref := Suc r\<rparr> in
                    if ok then
                      (Map.empty(factory_id \<mapsto> True),
                       sv1\<lparr>schneider_clients := (schneider_clients sv)(factory_id \<mapsto> r),
                           active_connections := (active_connections sv)(factory_id \<mapsto>
                             \<lparr>conn_type = ''schneider'', conn_client = r, connected_at = utcnow\<rparr>)\<rparr>,
                       w')
                    else (Map.empty(factory_id \<mapsto> False), sv1, w')))
            else (Map.empty, sv, w)
          else (Map.empty, sv, w))"

subsection \<open>Reading sensors\<close>

text \<open>One entry of a machine's sensor configuration. A key that is absent from the
  configuration dictionary is \<open>None\<close>.\<close>

record sensor_cfg =
  cfg_db_number :: "int option"
  cfg_address :: "int option"
  cfg_data_type :: "string option"
  cfg_scale_factor :: "rat option"
  cfg_unit :: "string option"

text \<open>The value of a reading: a float given by its 32 bits, an integer, or the float
  product \<^verbatim>\<open>values[0] * scale_factor\<close>, kept as its two operands.\<close>

datatype num_value = FloatOfBits "32 word" | IntValue int | Scaled int rat

record reading =
  rd_value :: num_value
  rd_unit :: string
  rd_timestamp :: nat

type_synonym sensor_data = "(string \<times> reading) list"

text \<open>\<^verbatim>\<open>sensor_data[sensor_type] = ...\<close> on a dictionary kept as an association list.\<close>

fun dict_set :: "string \<Rightarrow> reading \<Rightarrow> sensor_data \<Rightarrow> sensor_data" where
  "dict_set k v [] = [(k, v)]"
| "dict_set k v ((k', v') # d) = (if k = k' then (k, v) # d else (k', v') # dict_set k v d)"

definition make_reading :: "num_value \<Rightarrow> sensor_cfg \<Rightarrow> nat \<Rightarrow> reading" where
  "make_reading v config utcnow =
     \<lparr>rd_value = v, rd_unit = (case cfg_unit config of None \<Rightarrow> [] | Some u \<Rightarrow> u),
      rd_timestamp = utcnow\<rparr>"

text \<open>The body of \<^verbatim>\<open>_read_siemens_sensor_data\<close>: the loop over the configuration
  items. \<^verbatim>\<open>if raw_data:\<close> is false for \<^verbatim>\<open>None\<close> and for empty bytes;
  \<^verbatim>\<open>struct.unpack\<close> is not guarded and its exception leaves the loop.\<close>

fun read_siemens_items ::
  "siemens_client \<Rightarrow> (string \<times> sensor_cfg) list \<Rightarrow> nat \<Rightarrow> sensor_data \<Rightarrow> world
     \<Rightarrow> (exn + sensor_data) \<times> siemens_client \<times> world" where
  "read_siemens_items client [] utcnow sensor_data w = (Inr sensor_data, client, w)"
| "read_siemens_items client ((sensor_type, config) # rest) utcnow sensor_data w =
     (case (cfg_db_number config, cfg_address config) of
        (Some db_number, Some address) \<Rightarrow>
          (let data_type = (case cfg_data_type config of None \<Rightarrow> ''real'' | Some t \<Rightarrow> t) in
           if data_type = ''real'' then
             (case read_db client db_number address 4 w of
                (Some raw_data, client', w') \<Rightarrow>
                  if raw_data \<noteq> [] then
                    (case unpack_f raw_data of
                       Inl e \<Rightarrow> (Inl e, client', w')
                     | Inr v \<Rightarrow>
                         read_siemens_items client' rest utcnow
                           (dict_set sensor_type (make_reading (FloatOfBits v) config utcnow) sensor_data) w')
                  else read_siemens_items client' rest utcnow sensor_data w'
              | (None, client', w') \<Rightarrow> read_siemens_items client' rest utcnow sensor_data w')
           else if data_type = ''int'' then
             (case read_db client db_number address 2 w of
                (Some raw_data, client', w') \<Rightarrow>
                  if raw_data \<noteq> [] then
                    (case unpack_h raw_data of
                       Inl e \<Rightarrow> (Inl e, client', w')
                     | Inr v \<Rightarrow>
                         read_siemens_items client' rest utcnow
                           (dict_set sensor_type (make_reading (IntValue v) config utcnow) sensor_data) w')
                  else read_siemens_items client' rest utcnow sensor_data w'
              | (None, client', w') \<Rightarrow> read_siemens_items client' rest utcnow sensor_data w')
           else read_siemens_items client rest utcnow sensor_data w)
      | _ \<Rightarrow> read_siemens_items client rest utcnow sensor_data w)"

definition read_siemens_sensor_data ::
  "siemens_client \<Rightarrow> (string \<times> sensor_cfg) list \<Rightarrow> nat \<Rightarrow> world
     \<Rightarrow> (exn + sensor_data option) \<times> siemens_client \<times> world" where
  "read_siemens_sensor_data client sensor_config utcnow w =
     (case read_siemens_items client sensor_config utcnow [] w of
        (Inl e, client', w') \<Rightarrow> (Inl e, client', w')
      | (Inr sensor_data, client', w') \<Rightarrow>
          (Inr (if sensor_data \<noteq> [] then Some sensor_data else None), client', w'))"

text \<open>The body of \<^verbatim>\<open>_read_schneider_sensor_data\<close>. Both decodings are guarded:
  \<^verbatim>\<open>if values:\<close> and \<^verbatim>\<open>if values and len(values) == 2:\<close>.\<close>

fun read_schneider_items ::
  "schneider_client \<Rightarrow> (string \<times> sensor_cfg) list \<Rightarrow> nat \<Rightarrow> sensor_data \<Rightarrow> world
     \<Rightarrow> (exn + sensor_data) \<times> schneider_client \<times> world" where
  "read_schneider_items client [] utcnow sensor_data w = (Inr sensor_data, client, w)"
| "read_schneider_items client ((sensor_type, config) # rest) utcnow sensor_data w =
     (case cfg_address config of
        Some address \<Rightarrow>
          (let data_type = (case cfg_data_type config of None \<Rightarrow> ''holding_register'' | Some t \<Rightarrow> t);
               scale_factor = (case cfg_scale_factor config of None \<Rightarrow> 1 | Some f \<Rightarrow> f) in
           if data_type = ''holding_register'' then
             (case read_holding_registers client address 1 w of
                (Some values, client', w') \<Rightarrow>
                  if values \<noteq> [] then
                    read_schneider_items client' rest utcnow
                      (dict_set sensor_type
                         (make_reading (Scaled (values ! 0) scale_factor) config utcnow) sensor_data) w'
                  else read_schneider_items client' rest utcnow sensor_data w'
              | (None, client', w') \<Rightarrow> read_schneider_items client' rest utcnow sensor_data w')
           else if data_type = ''holding_register_float'' then
             (case read_holding_registers client address 2 w of
                (Some values, client', w') \<Rightarrow>
                  if values \<noteq> [] \<and> length values = 2 then
                    (case decode_register_float values of
                       Inl e \<Rightarrow> (Inl e, client', w')
                     | Inr v \<Rightarrow>
                         read_schneider_items client' rest utcnow
                           (dict_set sensor_type (make_reading (FloatOfBits v) config utcnow)
                              sensor_data) w')
                  else read_schneider_items client' rest utcnow sensor_data w'
              | (None, client', w') \<Rightarrow> read_schneider_items client' rest utcnow sensor_data w')
           else read_schneider_items client rest utcnow sensor_data w)
      | None \<Rightarrow> read_schneider_items client rest utcnow sensor_data w)"

definition read_schneider_sensor_data ::
  "schneider_client \<Rightarrow> (string \<times> sensor_cfg) list \<Rightarrow> nat \<Rightarrow> world
     \<Rightarrow> (exn + sensor_data option) \<times> schneider_client \<times> world" where
  "read_schneider_sensor_data client sensor_config utcnow w =
     (case read_schneider_items client sensor_config utcnow [] w of
        (Inl e, client', w') \<Rightarrow> (Inl e, client', w')
      | (Inr sensor_data, client', w') \<Rightarrow>
          (Inr (if sensor_data \<noteq> [] then Some sensor_data else None), client', w'))"

text \<open>\<^verbatim>\<open>read_sensor_data_from_plc\<close> catches every exception of the vendor reader and
  returns \<^verbatim>\<open>None\<close>. A connection type other than the two known ones falls off the
  end of the \<^verbatim>\<open>if\<close>/\<^verbatim>\<open>elif\<close> and returns \<^verbatim>\<open>None\<close> as well, and so does a client object
  of the other class (its method is missing).\<close>

definition read_sensor_data_from_plc ::
  "service \<Rightarrow> string \<Rightarrow> string \<Rightarrow> (string \<times> sensor_cfg) list \<Rightarrow> nat \<Rightarrow> world
     \<Rightarrow> sensor_data option \<times> service \<times> world" where
  "read_sensor_data_from_plc sv factory_id machine_id sensor_config utcnow w =
     (case active_connections sv factory_id of
        None \<Rightarrow> (None, sv, w)
      | Some conn \<Rightarrow>
          if conn_type conn = ''siemens'' then
            (case heap sv (conn_client conn) of
               Some (S7 client) \<Rightarrow>
                 (case read_siemens_sensor_data client sensor_config utcnow w of
                    (res, client', w') \<Rightarrow>
                      ((case res of Inl e \<Rightarrow> None | Inr d \<Rightarrow> d),
                       sv\<lparr>heap := (heap sv)(conn_client conn \<mapsto> S7 client')\<rparr>, w'))
             | _ \<Rightarrow> (None, sv, w))
          else if conn_type conn = ''schneider'' then
            (case heap sv (conn_client conn) of
               Some (Modbus client) \<Rightarrow>
                 (case read_schneider_sensor_data client sensor_config utcnow w of
                    (res, client', w') \<Rightarrow>
                      ((case res of Inl e \<Rightarrow> None | Inr d \<Rightarrow> d),
                       sv\<lparr>heap := (heap sv)(conn_client conn \<mapsto> Modbus client')\<rparr>, w'))
             | _ \<Rightarrow> (None, sv, w))
          else (None, sv, w))"

subsection \<open>Writing alerts\<close>

text \<open>The alert arrives as the JSON body of a request, so the value stored under
  \<^verbatim>\<open>'severity'\<close> can be any JSON value. \<^verbatim>\<open>severity_map.get(x, 1)\<close> hashes \<open>x\<close>: a list or
  a dictionary is unhashable and raises \<^verbatim>\<open>TypeError\<close>, every other value is looked up
  and, when it is not a key, replaced by the default. The elements of a list or a
  dictionary are never looked at, so they are left out.\<close>

datatype pyval = PyNone | PyBool bool | PyInt int | PyStr string | PyList | PyDict

definition severity_map :: "string \<rightharpoonup> int" where
  "severity_map = [''low'' \<mapsto> 1, ''medium'' \<mapsto> 2, ''high'' \<mapsto> 3, ''critical'' \<mapsto> 4]"

definition severity_value :: "(string \<rightharpoonup> pyval) \<Rightarrow> exn + int" where
  "severity_value alert_data =
     (case (case alert_data ''severity'' of None \<Rightarrow> PyStr ''low'' | Some x \<Rightarrow> x) of
        PyStr name \<Rightarrow> Inr (case severity_map name of None \<Rightarrow> 1 | Some n \<Rightarrow> n)
      | PyList \<Rightarrow> Inl TypeError
      | PyDict \<Rightarrow> Inl TypeError
      | _ \<Rightarrow> Inr 1)"

definition write_siemens_alert ::
  "siemens_client \<Rightarrow> (string \<rightharpoonup> pyval) \<Rightarrow> world \<Rightarrow> (exn + bool) \<times> siemens_client \<times> world" where
  "write_siemens_alert client alert_data w =
     (let db_number = 100; address = 0 in
      case severity_value alert_data of
        Inl e \<Rightarrow> (Inl e, client, w)
      | Inr sev \<Rightarrow>
          (case struct_pack [(Fmt_H, 1), (Fmt_H, sev)] of
             Inl e \<Rightarrow> (Inl e, client, w)
           | Inr alert_bytes \<Rightarrow>
               (case write_db client db_number address alert_bytes w of
                  (ok, client', w') \<Rightarrow> (Inr ok, client', w'))))"

definition write_schneider_alert ::
  "schneider_client \<Rightarrow> (string \<rightharpoonup> pyval) \<Rightarrow> world
     \<Rightarrow> (exn + bool) \<times> schneider_client \<times> world" where
  "write_schneider_alert client alert_data w =
     (let alert_register = 1000; severity_register = 1001 in
      case severity_value alert_data of
        Inl e \<Rightarrow> (Inl e, client, w)
      | Inr sev \<Rightarrow>
          (case write_single_register client alert_register 1 w of
             (ok, client', w') \<Rightarrow>
               if \<not> ok then (Inr False, client', w')
               else (case write_single_register client' severity_register sev w' of
                       (ok2, client'', w'') \<Rightarrow> (Inr ok2, client'', w''))))"

text \<open>\<^verbatim>\<open>write_alert_to_plc\<close>: an exception of the vendor writer becomes \<^verbatim>\<open>False\<close>. For a
  connection type that is neither of the two the source falls off the end and returns
  \<^verbatim>\<open>None\<close>, which the caller tests for truth; it is \<open>False\<close> here.\<close>

definition write_alert_to_plc ::
  "service \<Rightarrow> string \<Rightarrow> (string \<rightharpoonup> pyval) \<Rightarrow> world \<Rightarrow> bool \<times> service \<times> world" where
  "write_alert_to_plc sv factory_id alert_data w =
     (case active_connections sv factory_id of
        None \<Rightarrow> (False, sv, w)
      | Some conn \<Rightarrow>
          if conn_type conn = ''siemens'' then
            (case heap sv (conn_client conn) of
               Some (S7 client) \<Rightarrow>
                 (case write_siemens_alert client alert_data w of
                    (res, client', w') \<Rightarrow>
                      ((case res of Inl e \<Rightarrow> False | Inr ok \<Rightarrow> ok),
                       sv\<lparr>heap := (heap sv)(conn_client conn \<mapsto> S7 client')\<rparr>, w'))
             | _ \<Rightarrow> (False, sv, w))
          else if conn_type conn = ''schneider'' then
            (case heap sv (conn_client conn) of
               Some (Modbus client) \<Rightarrow>
                 (case write_schneider_alert client alert_data w of
                    (res, client', w') \<Rightarrow>
                      ((case res of Inl e \<Rightarrow> False | Inr ok \<Rightarrow> ok),
                       sv\<lparr>heap := (heap sv)(conn_client conn \<mapsto> Modbus client')\<rparr>, w'))
             | _ \<Rightarrow> (False, sv, w))
          else (False, sv, w))"

section \<open>The encoders of the byte codec\<close>

text \<open>The source only decodes sensor values; it has no function that encodes one. The
  encoders below are the inverse directions that the specification of the byte codec
  describes; the register word of a scaled holding register is encoded by the source's
  own \<^verbatim>\<open>struct.pack('>H', value)\<close>, which is \<open>pack_field Fmt_H\<close>.\<close>




section \<open>Sequences of Modbus requests and what they put on the wire\<close>

datatype mb_request =
  ReadHoldingRegisters int int
  | WriteSingleRegister int int
  | WriteMultipleRegisters int "int list"

fun mb_perform :: "mb_request \<Rightarrow> schneider_client \<Rightarrow> world \<Rightarrow> schneider_client \<times> world" where
  "mb_perform (ReadHoldingRegisters address count) c w = snd (read_holding_registers c address count w)"
| "mb_perform (WriteSingleRegister address v) c w = snd (write_single_register c address v w)"
| "mb_perform (WriteMultipleRegisters address values) c w =
     snd (write_multiple_registers c address values w)"

fun mb_run :: "mb_request list \<Rightarrow> schneider_client \<Rightarrow> world \<Rightarrow> schneider_client \<times> world" where
  "mb_run [] c w = (c, w)"
| "mb_run (rq # rqs) c w = (case mb_perform rq c w of (c', w') \<Rightarrow> mb_run rqs c' w')"

text \<open>The transaction id of a Modbus TCP frame: its first two bytes, big-endian.\<close>

definition wire_tid :: "byte list \<Rightarrow> int" where
  "wire_tid frame = from_bytes_be (take 2 frame)"

text \<open>The frames sent between two states of the world.\<close>

definition sent_between :: "world \<Rightarrow> world \<Rightarrow> byte list list" where
  "sent_between w w' = map snd (drop (length (wire w)) (wire w'))"

section \<open>Concrete environments for the examples\<close>

text \<open>A world in which the listed connects and exchanges happen in order; after the
  lists are used up a connect is refused and a receive times out.\<close>

definition scripted_world :: "bool list \<Rightarrow> exchange list \<Rightarrow> world" where
  "scripted_world accepts xs =
     \<lparr>tcp_accepts = (\<lambda>n. n < length accepts \<and> accepts ! n),
      replies = (\<lambda>n. if n < length xs then xs ! n else RecvError),
      n_socks = 0, n_exch = 0, wire = [], closed = {}\<rparr>"

definition example_factories :: "string \<rightharpoonup> factory" where
  "example_factories =
     [''F1'' \<mapsto> \<lparr>plc_type = Some ''siemens_s7_1500'', plc_ip = Some ''10.0.0.5'', plc_port = None\<rparr>,
      ''F2'' \<mapsto> \<lparr>plc_type = Some ''schneider_m340'', plc_ip = Some ''10.0.0.6'', plc_port = None\<rparr>]"

text \<open>The COTP connection-confirm frame: byte 5 is \<open>0xD0\<close>.\<close>

definition cc_accept :: "byte list" where
  "cc_accept = [0x03, 0x00, 0x00, 0x16, 0x11, 0xD0, 0x00, 0x01, 0x00, 0x01, 0x00]"

text \<open>An S7 read response: 21 header bytes, the status byte at offset 21, one byte,
  the declared payload length at offsets 23 and 24, then the payload.\<close>

definition s7_response :: "byte \<Rightarrow> nat \<Rightarrow> byte list \<Rightarrow> byte list" where
  "s7_response status declared payload =
     replicate 21 0 @ [status, 0x04, word_of_nat (declared div 256), word_of_nat declared] @ payload"

text \<open>A connected client of each vendor, obtained by running \<open>connect\<close>.\<close>

definition connected_s7 :: "exchange list \<Rightarrow> siemens_client \<times> world" where
  "connected_s7 xs =
     snd (s7_connect (SiemensS7Client ''10.0.0.5'') (scripted_world [True] (Reply cc_accept # xs)))"

definition connected_mb :: "exchange list \<Rightarrow> schneider_client \<times> world" where
  "connected_mb xs =
     snd (mb_connect (SchneiderModiconClient ''10.0.0.6'' 502) (scripted_world [True] xs))"

text \<open>The service after one call of \<open>connect_to_factory_plcs\<close> on a new service.\<close>

definition connected_service :: "string \<Rightarrow> bool list \<Rightarrow> exchange list \<Rightarrow> service \<times> world" where
  "connected_service factory_id accepts xs =
     snd (connect_to_factory_plcs example_factories 0 PLCIntegrationService factory_id
            (scripted_world accepts xs))"

text \<open>A Siemens client and a Schneider client connected one after the other in the
  same world.\<close>

definition two_clients :: "exchange list \<Rightarrow> siemens_client \<times> schneider_client \<times> world" where
  "two_clients xs =
     (case s7_connect (SiemensS7Client ''10.0.0.5'')
             (scripted_world [True, True] (Reply cc_accept # xs)) of
        (ok, c, w) \<Rightarrow>
          (case mb_connect (SchneiderModiconClient ''10.0.0.6'' 502) w of
             (ok', m, w') \<Rightarrow> (c, m, w')))"

text \<open>The service after connecting factory \<open>F1\<close> (Siemens) and then factory \<open>F2\<close>
  (Schneider), both successfully.\<close>

definition two_factories :: "exchange list \<Rightarrow> service \<times> world" where
  "two_factories xs =
     (case connected_service ''F1'' [True, True] (Reply cc_accept # xs) of
        (sv, w) \<Rightarrow> snd (connect_to_factory_plcs example_factories 0 sv ''F2'' w))"

text \<open>Two sensors of type \<open>real\<close> on data block 1, and a script in which the
  controller answers the first read with 4 payload bytes and the second with a
  response that has status \<open>0xFF\<close> but declares and carries only 2 payload bytes.\<close>

definition temperature_cfg :: sensor_cfg where
  "temperature_cfg =
     \<lparr>cfg_db_number = Some 1, cfg_address = Some 0, cfg_data_type = Some ''real'',
      cfg_scale_factor = None, cfg_unit = Some ''C''\<rparr>"

definition vibration_cfg :: sensor_cfg where
  "vibration_cfg =
     \<lparr>cfg_db_number = Some 1, cfg_address = Some 4, cfg_data_type = Some ''real'',
      cfg_scale_factor = None, cfg_unit = Some ''mm/s''\<rparr>"

definition short_payload_script :: "exchange list" where
  "short_payload_script =
     [Reply cc_accept,
      Reply (s7_response 0xFF 4 [0x41, 0xC8, 0x00, 0x00]),
      Reply (s7_response 0xFF 2 [0x00, 0x01])]"

text \<open>The echo with which a Modbus controller acknowledges a single-register write,
  and an alert of severity \<open>critical\<close>.\<close>

definition write_ack :: "byte list" where
  "write_ack = [0x00, 0x01, 0x00, 0x00, 0x00, 0x06, 0x01, 0x06, 0x03, 0xE8, 0x00, 0x01]"



section \<open>Facts about the response parsers\<close>

lemma shift_or_bytes: "push_bit 8 (uint (a::byte)) OR uint (b::byte) = uint a * 256 + uint b"
proof -
  have "push_bit 8 (uint a) AND uint b = 0"
    by (rule bit_eqI) (auto simp: bit_simps dest: bit_imp_le_length)
  then have "push_bit 8 (uint a) + uint b = push_bit 8 (uint a) OR uint b"
    by (rule disjunctive_add_eq_or)
  then show ?thesis by (simp add: push_bit_eq_mult)
qed

lemma from_bytes_be2: "from_bytes_be [a, b] = uint a * 256 + uint b"
  by (simp add: from_bytes_be_def)

lemma slice_two: "k + 2 \<le> length r \<Longrightarrow> slice r k (k + 2) = [r ! k, r ! Suc k]"
proof -
  assume len: "k + 2 \<le> length r"
  then have "drop k r = r ! k # drop (Suc k) r" and "drop (Suc k) r = r ! Suc k # drop (Suc (Suc k)) r"
    by (simp_all add: Cons_nth_drop_Suc)
  then show ?thesis by (simp add: slice_def)
qed

lemma registers_loop_ok:
  "\<forall>i\<in>set is. 11 + i * 2 \<le> length r \<Longrightarrow>
   registers_loop r is vs = Inr (vs @ map (\<lambda>i. uint (r ! (9 + i * 2)) * 256 + uint (r ! (10 + i * 2))) is)"
proof (induction "is" arbitrary: vs)
  case Nil
  then show ?case by simp
next
  case (Cons i "is")
  have len: "(9 + i * 2) + 2 \<le> length r" using Cons.prems by simp
  have "slice r (9 + i * 2) ((9 + i * 2) + 2) = [r ! (9 + i * 2), r ! Suc (9 + i * 2)]"
    using len by (rule slice_two)
  then have sl: "slice r (9 + i * 2) (11 + i * 2) = [r ! (9 + i * 2), r ! (10 + i * 2)]"
    by (simp add: numeral_Bit1 numeral_Bit0)
  show ?case using Cons sl by (simp add: unpack_H_def from_bytes_be2)
qed

lemma registers_loop_fail:
  "\<exists>i\<in>set is. length r < 11 + i * 2 \<Longrightarrow> registers_loop r is vs = Inl StructError"
proof (induction "is" arbitrary: vs)
  case Nil
  then show ?case by simp
next
  case (Cons i "is")
  show ?case
  proof (cases "length r < 11 + i * 2")
    case True
    then have "length (slice r (9 + i * 2) (11 + i * 2)) \<noteq> 2"
      by (simp add: slice_def)
    then show ?thesis by (simp add: unpack_H_def)
  next
    case False
    then have "\<exists>i\<in>set is. length r < 11 + i * 2" using Cons.prems by auto
    then have "registers_loop r is (vs @ [v]) = Inl StructError" for v
      using Cons.IH by blast
    then show ?thesis by (simp add: unpack_H_def split: sum.splits)
  qed
qed

lemma parse_read_response_eq:
  "parse_read_response r =
     (if 25 \<le> length r \<and> r ! 21 = 0xFF \<and> 25 + (unat (r ! 23) * 256 + unat (r ! 24)) \<le> length r
      then Some (take (unat (r ! 23) * 256 + unat (r ! 24)) (drop 25 r)) else None)"
proof -
  have "nat (push_bit 8 (uint (r ! 23)) OR uint (r ! 24)) = unat (r ! 23) * 256 + unat (r ! 24)"
    by (simp add: shift_or_bytes nat_add_distrib nat_mult_distrib)
  then show ?thesis
    by (auto simp: parse_read_response_def slice_def Let_def)
qed

lemma parse_read_registers_response_eq:
  "parse_read_registers_response r =
     (if length r < 9 then Inr None
      else if r ! 7 AND 0x80 \<noteq> 0 then Inr None
      else if length r < 9 + 2 * (unat (r ! 8) div 2) then Inl StructError
      else Inr (Some (map (\<lambda>i. uint (r ! (9 + i * 2)) * 256 + uint (r ! (10 + i * 2)))
                        [0 ..< unat (r ! 8) div 2])))"
proof -
  let ?n = "unat (r ! 8) div 2"
  have ok: "registers_loop r [0 ..< ?n] [] =
        Inr (map (\<lambda>i. uint (r ! (9 + i * 2)) * 256 + uint (r ! (10 + i * 2))) [0 ..< ?n])"
    if "\<not> length r < 9 + 2 * ?n"
  proof -
    have "\<forall>i\<in>set [0 ..< ?n]. 11 + i * 2 \<le> length r" using that by auto
    from registers_loop_ok [OF this, of "[]"] show ?thesis by simp
  qed
  have bad: "registers_loop r [0 ..< ?n] [] = Inl StructError"
    if "length r < 9 + 2 * ?n" "\<not> length r < 9"
  proof -
    have "0 < ?n" using that by auto
    then have "?n - 1 \<in> set [0 ..< ?n]" and "length r < 11 + (?n - 1) * 2"
      using that by auto
    then have "\<exists>i\<in>set [0 ..< ?n]. length r < 11 + i * 2" by blast
    then show ?thesis by (rule registers_loop_fail)
  qed
  show ?thesis
    using ok bad by (simp add: parse_read_registers_response_def Let_def)
qed

section \<open>Requests that can be built, and single exchanges\<close>

lemma and_255: "(x::int) AND 0xFF = x mod 256"
proof -
  have "x AND mask 8 = take_bit 8 x" by (simp add: take_bit_eq_mask)
  then show ?thesis by (simp add: take_bit_eq_mod mask_eq_exp_minus_1)
qed

lemma div256_bounds:
  assumes "0 \<le> (x::int)" "x < 65536"
  shows "0 \<le> x div 256 \<and> x div 256 < 256"
proof -
  have "x div 256 \<le> 65535 div 256" using assms by (intro zdiv_mono1) simp_all
  then show ?thesis using assms by simp
qed

lemma build_read_request_ok:
  assumes "0 \<le> db_number" "db_number < 256" "0 \<le> start" "start < 65536" "0 \<le> sz" "sz < 65536"
  shows "\<exists>request. build_read_request db_number start sz = Inr request"
proof -
  have "drop_bit 16 start = 0" using assms by (simp add: drop_bit_eq_div)
  moreover have "0 \<le> start div 256 \<and> start div 256 < 256"
    using assms by (simp add: div256_bounds)
  moreover have "0 \<le> sz div 256 \<and> sz div 256 < 256"
    using assms by (simp add: div256_bounds)
  ultimately show ?thesis
    using assms by (simp add: build_read_request_def bytearray_def and_255 drop_bit_eq_div)
qed

lemma transact_reply:
  "replies w (n_exch w) = Reply response \<Longrightarrow>
   transact (Some s) request w =
     (Inr (take 1024 response), w\<lparr>n_exch := Suc (n_exch w), wire := wire w @ [(s, request)]\<rparr>)"
  by (simp add: transact_def)

section \<open>C3: what an S7 read returns\<close>

text \<open>
  Claim C3, as amended. A read on a connected client whose request can be built and
  whose exchange delivers a response never raises. The response is accepted only if it
  has at least 25 bytes, its status byte at offset 21 is \<open>0xFF\<close>, and it holds as many
  payload bytes after offset 25 as its own length field (offsets 23 and 24, big-endian)
  declares; the result is then exactly that declared number of bytes starting at
  offset 25. The requested size \<open>sz\<close> plays no part in it. Every other response gives
  \<open>None\<close>.
\<close>

theorem read_db_returns_declared_payload:
  assumes "s7_connected c" and "s7_socket c = Some s"
    and "0 \<le> db_number \<and> db_number < 256 \<and> 0 \<le> start \<and> start < 65536 \<and> 0 \<le> sz \<and> sz < 65536"
    and "replies w (n_exch w) = Reply response" and "length response \<le> 1024"
  shows "fst (read_db c db_number start sz w) =
           (if 25 \<le> length response \<and> response ! 21 = 0xFF
               \<and> 25 + (unat (response ! 23) * 256 + unat (response ! 24)) \<le> length response
            then Some (take (unat (response ! 23) * 256 + unat (response ! 24)) (drop 25 response))
            else None)
         \<and> (\<forall>payload. fst (read_db c db_number start sz w) = Some payload \<longrightarrow>
               length payload = unat (response ! 23) * 256 + unat (response ! 24))"
proof -
  obtain request where rq: "build_read_request db_number start sz = Inr request"
    using build_read_request_ok assms(3) by blast
  have rd: "fst (read_db c db_number start sz w) = parse_read_response response"
    using assms(1,2,5) rq by (simp add: read_db_def transact_reply [OF assms(4)])
  show ?thesis unfolding rd parse_read_response_eq by auto
qed

theorem read_db_returns_declared_payload_witness:
  "s7_connected (fst (connected_s7 [Reply (s7_response 0xFF 4 [0x41, 0xC8, 0x00, 0x00])]))
   \<and> s7_socket (fst (connected_s7 [Reply (s7_response 0xFF 4 [0x41, 0xC8, 0x00, 0x00])])) = Some 0
   \<and> fst (read_db (fst (connected_s7 [Reply (s7_response 0xFF 4 [0x41, 0xC8, 0x00, 0x00])])) 1 0 4
            (snd (connected_s7 [Reply (s7_response 0xFF 4 [0x41, 0xC8, 0x00, 0x00])])))
       = Some [0x41, 0xC8, 0x00, 0x00]"
proof -
  let ?r = "s7_response 0xFF 4 [0x41, 0xC8, 0x00, 0x00]"
  let ?c = "fst (connected_s7 [Reply ?r])"
  let ?w = "snd (connected_s7 [Reply ?r])"
  have h1: "s7_connected ?c" by code_simp
  have h2: "s7_socket ?c = Some 0" by code_simp
  have h3: "(0::int) \<le> 1 \<and> (1::int) < 256 \<and> (0::int) \<le> 0 \<and> (0::int) < 65536 \<and> (0::int) \<le> 4 \<and> (4::int) < 65536"
    by simp
  have h4: "replies ?w (n_exch ?w) = Reply ?r" by code_simp
  have h5: "length ?r \<le> 1024" by code_simp
  have e: "(if 25 \<le> length ?r \<and> ?r ! 21 = 0xFF
               \<and> 25 + (unat (?r ! 23) * 256 + unat (?r ! 24)) \<le> length ?r
            then Some (take (unat (?r ! 23) * 256 + unat (?r ! 24)) (drop 25 ?r))
            else None) = Some [0x41, 0xC8, 0x00, 0x00]" by code_simp
  from read_db_returns_declared_payload [OF h1 h2 h3 h4 h5] e h1 h2 show ?thesis by simp
qed

text \<open>
  Claim C3 as stated fails: a read of 4 bytes whose response has status \<open>0xFF\<close> and
  declares 2 payload bytes is accepted and returns 2 bytes, not 4.
\<close>

theorem read_db_length_counterexample:
  "map_option length
     (fst (read_db (fst (connected_s7 [Reply (s7_response 0xFF 2 [0xAA, 0xBB])])) 1 0 4
             (snd (connected_s7 [Reply (s7_response 0xFF 2 [0xAA, 0xBB])])))) = Some 2"
  by code_simp

section \<open>Facts about Modbus frames\<close>

lemma uint_byte_of_int: "0 \<le> x \<Longrightarrow> x < 256 \<Longrightarrow> uint (word_of_int x :: byte) = x"
  by (simp add: uint_word_of_int take_bit_int_eq_self)

lemma pack_H_value:
  assumes "pack_field Fmt_H x = Inr bs"
  shows "from_bytes_be bs = x \<and> length bs = 2"
proof -
  have r: "0 \<le> x" "x < 65536" and bs: "bs = [word_of_int (x div 256), word_of_int x]"
    using assms by (auto simp: drop_bit_eq_div split: if_splits)
  have hi: "uint (word_of_int (x div 256) :: byte) = x div 256"
    using div256_bounds [OF r] by (simp add: uint_byte_of_int)
  have lo: "uint (word_of_int x :: byte) = x mod 256"
    by (simp add: uint_word_of_int take_bit_eq_mod)
  show ?thesis unfolding bs from_bytes_be2 hi lo by simp
qed

lemma struct_pack_tid:
  assumes "struct_pack ((Fmt_H, x) # fs) = Inr frame"
  shows "wire_tid frame = x"
proof -
  obtain bs rest where bs: "pack_field Fmt_H x = Inr bs" and fr: "frame = bs @ rest"
    using assms by (auto split: sum.splits)
  from pack_H_value [OF bs] fr show ?thesis by (simp add: wire_tid_def)
qed

lemma build_modbus_request_tid:
  "build_modbus_request c fc a d = Inr frame \<Longrightarrow> wire_tid frame = transaction_id c"
  unfolding build_modbus_request_def by (rule struct_pack_tid)

lemma build_modbus_write_multiple_request_tid:
  assumes "build_modbus_write_multiple_request c a vs = Inr frame"
  shows "wire_tid frame = transaction_id c"
proof -
  obtain header data where h: "struct_pack ((Fmt_H, transaction_id c) #
       [(Fmt_H, 0x0000), (Fmt_H, 7 + int (length vs) * 2), (Fmt_B, mb_unit_id c), (Fmt_B, 0x10),
        (Fmt_H, a), (Fmt_H, int (length vs)), (Fmt_B, int (length vs) * 2)]) = Inr header"
    and fr: "frame = header @ data"
    using assms by (auto simp: build_modbus_write_multiple_request_def Let_def split: sum.splits)
  obtain bs rest where bs: "pack_field Fmt_H (transaction_id c) = Inr bs" and hd: "header = bs @ rest"
    using h by (auto split: sum.splits)
  from pack_H_value [OF bs] fr hd show ?thesis by (simp add: wire_tid_def)
qed

lemma build_modbus_request_ok:
  assumes "0 \<le> transaction_id c \<and> transaction_id c \<le> 65535" "0 \<le> mb_unit_id c \<and> mb_unit_id c \<le> 255"
    "0 \<le> fc \<and> fc \<le> 255" "0 \<le> a \<and> a \<le> 65535" "0 \<le> d \<and> d \<le> 65535"
  shows "build_modbus_request c fc a d =
     Inr [word_of_int (transaction_id c div 256), word_of_int (transaction_id c), 0, 0, 0, 6,
          word_of_int (mb_unit_id c), word_of_int fc,
          word_of_int (a div 256), word_of_int a, word_of_int (d div 256), word_of_int d]"
  using assms by (simp add: build_modbus_request_def drop_bit_eq_div)

lemma transact_wire:
  "transact sock request w = (r, w') \<Longrightarrow>
     closed w' = closed w \<and>
     (wire w' = wire w \<or> (\<exists>s. sock = Some s \<and> wire w' = wire w @ [(s, request)]))"
  by (auto simp: transact_def split: option.splits exchange.splits)

section \<open>C7: decoding a Modbus read response\<close>

text \<open>
  Claim C7. A read of holding registers on a connected client whose request can be
  built and whose exchange delivers a response never raises. A response shorter than
  the 9 header bytes gives no data; a response whose function code (offset 7) has the
  bit \<open>0x80\<close> set is rejected; a response whose payload ends before the declared
  \<open>byte_count div 2\<close> words gives no data; every other response is decoded as
  \<open>byte_count div 2\<close> big-endian 16-bit words taken from offset 9 on.
\<close>

theorem read_holding_registers_decodes:
  assumes "mb_connected c" and "mb_socket c = Some s"
    and "0 \<le> transaction_id c + 1 \<and> transaction_id c + 1 \<le> 65535"
    and "0 \<le> mb_unit_id c \<and> mb_unit_id c \<le> 255"
    and "0 \<le> address \<and> address \<le> 65535" and "0 \<le> count \<and> count \<le> 65535"
    and "replies w (n_exch w) = Reply response" and "length response \<le> 1024"
  shows "fst (read_holding_registers c address count w) =
           (if length response < 9 then None
            else if response ! 7 AND 0x80 \<noteq> 0 then None
            else if length response < 9 + 2 * (unat (response ! 8) div 2) then None
            else Some (map (\<lambda>i. uint (response ! (9 + i * 2)) * 256 + uint (response ! (10 + i * 2)))
                         [0 ..< unat (response ! 8) div 2]))"
proof -
  let ?c1 = "c\<lparr>transaction_id := transaction_id c + 1\<rparr>"
  have "\<exists>request. build_modbus_request ?c1 0x03 address count = Inr request"
    using build_modbus_request_ok [of ?c1 "0x03" address count] assms(3-6) by simp
  then obtain request where rq: "build_modbus_request ?c1 0x03 address count = Inr request" ..
  have "fst (read_holding_registers c address count w) =
          (case parse_read_registers_response response of Inl e \<Rightarrow> None | Inr r \<Rightarrow> r)"
    using assms(1,2,8) rq
    by (simp add: read_holding_registers_def Let_def transact_reply [OF assms(7)] split: sum.splits)
  then show ?thesis by (simp add: parse_read_registers_response_eq)
qed

theorem read_holding_registers_decodes_witness:
  "mb_connected (fst (connected_mb [Reply [0, 1, 0, 0, 0, 5, 1, 3, 2, 0x00, 0xE6]]))
   \<and> mb_socket (fst (connected_mb [Reply [0, 1, 0, 0, 0, 5, 1, 3, 2, 0x00, 0xE6]])) = Some 0
   \<and> fst (read_holding_registers (fst (connected_mb [Reply [0, 1, 0, 0, 0, 5, 1, 3, 2, 0x00, 0xE6]]))
            1000 1 (snd (connected_mb [Reply [0, 1, 0, 0, 0, 5, 1, 3, 2, 0x00, 0xE6]])))
       = Some [230]"
proof -
  let ?r = "[0, 1, 0, 0, 0, 5, 1, 3, 2, 0x00, 0xE6] :: byte list"
  let ?c = "fst (connected_mb [Reply ?r])"
  let ?w = "snd (connected_mb [Reply ?r])"
  have h1: "mb_connected ?c" by code_simp
  have h2: "mb_socket ?c = Some 0" by code_simp
  have h3: "0 \<le> transaction_id ?c + 1 \<and> transaction_id ?c + 1 \<le> 65535" by code_simp
  have h4: "0 \<le> mb_unit_id ?c \<and> mb_unit_id ?c \<le> 255" by code_simp
  have h5: "(0::int) \<le> 1000 \<and> (1000::int) \<le> 65535" by simp
  have h6: "(0::int) \<le> 1 \<and> (1::int) \<le> 65535" by simp
  have h7: "replies ?w (n_exch ?w) = Reply ?r" by code_simp
  have h8: "length ?r \<le> 1024" by simp
  have e: "(if length ?r < 9 then None
            else if ?r ! 7 AND 0x80 \<noteq> 0 then None
            else if length ?r < 9 + 2 * (unat (?r ! 8) div 2) then None
            else Some (map (\<lambda>i. uint (?r ! (9 + i * 2)) * 256 + uint (?r ! (10 + i * 2)))
                         [0 ..< unat (?r ! 8) div 2])) = Some [230]" by code_simp
  from read_holding_registers_decodes [OF h1 h2 h3 h4 h5 h6 h7 h8] e h1 h2 show ?thesis by simp
qed

section \<open>C4: a failed exchange does not tear the connection down\<close>

text \<open>
  Claim C4 as stated fails: after a read on a connected S7 client whose receive times
  out, the read reports \<open>None\<close>, but the client is still marked connected and still
  holds its socket, on which \<open>close\<close> was never called.
\<close>

theorem read_db_timeout_counterexample:
  "fst (read_db (fst (connected_s7 [RecvError])) 1 0 4 (snd (connected_s7 [RecvError]))) = None
   \<and> s7_connected (fst (snd (read_db (fst (connected_s7 [RecvError])) 1 0 4 (snd (connected_s7 [RecvError])))))
   \<and> s7_socket (fst (snd (read_db (fst (connected_s7 [RecvError])) 1 0 4 (snd (connected_s7 [RecvError])))))
       = Some 0
   \<and> 0 \<notin> closed (snd (snd (read_db (fst (connected_s7 [RecvError])) 1 0 4 (snd (connected_s7 [RecvError])))))"
  by code_simp

text \<open>
  Claim C4, as amended. When the exchange of a transport operation (S7 read or write,
  Modbus read, single write or multiple write) fails with a socket error or a timeout,
  the operation reports failure (\<open>None\<close> or \<open>False\<close>) and leaves the connection as it
  was: the client is still marked connected and still holds the same socket, which is
  not closed.
\<close>

theorem failed_exchange_keeps_connection:
  assumes "replies w (n_exch w) = SendError \<or> replies w (n_exch w) = RecvError"
    and "s7_connected c" and "s7_socket c = Some s" and "s \<notin> closed w"
    and "mb_connected m" and "mb_socket m = Some t" and "t \<notin> closed w"
  shows "(case read_db c db_number start sz w of
            (r, c', w') \<Rightarrow> r = None \<and> s7_connected c' \<and> s7_socket c' = Some s \<and> s \<notin> closed w')
       \<and> (case write_db c db_number start data w of
            (r, c', w') \<Rightarrow> r = False \<and> s7_connected c' \<and> s7_socket c' = Some s \<and> s \<notin> closed w')
       \<and> (case read_holding_registers m address count w of
            (r, m', w') \<Rightarrow> r = None \<and> mb_connected m' \<and> mb_socket m' = Some t \<and> t \<notin> closed w')
       \<and> (case write_single_register m address v w of
            (r, m', w') \<Rightarrow> r = False \<and> mb_connected m' \<and> mb_socket m' = Some t \<and> t \<notin> closed w')
       \<and> (case write_multiple_registers m address vs w of
            (r, m', w') \<Rightarrow> r = False \<and> mb_connected m' \<and> mb_socket m' = Some t \<and> t \<notin> closed w')"
proof -
  have tr: "\<exists>w'. transact (Some u) request w = (Inl OSError, w') \<and> closed w' = closed w"
    for u request
    using assms(1) by (auto simp: transact_def)
  have a: "case read_db c db_number start sz w of
            (r, c', w') \<Rightarrow> r = None \<and> s7_connected c' \<and> s7_socket c' = Some s \<and> s \<notin> closed w'"
  proof (cases "build_read_request db_number start sz")
    case (Inl e)
    then show ?thesis using assms by (simp add: read_db_def)
  next
    case (Inr request)
    obtain w' where "transact (Some s) request w = (Inl OSError, w')" "closed w' = closed w"
      using tr by blast
    then show ?thesis using assms Inr by (simp add: read_db_def)
  qed
  have b: "case write_db c db_number start data w of
            (r, c', w') \<Rightarrow> r = False \<and> s7_connected c' \<and> s7_socket c' = Some s \<and> s \<notin> closed w'"
  proof (cases "build_write_request db_number start data")
    case (Inl e)
    then show ?thesis using assms by (simp add: write_db_def)
  next
    case (Inr request)
    obtain w' where "transact (Some s) request w = (Inl OSError, w')" "closed w' = closed w"
      using tr by blast
    then show ?thesis using assms Inr by (simp add: write_db_def)
  qed
  let ?m1 = "m\<lparr>transaction_id := transaction_id m + 1\<rparr>"
  have c: "case read_holding_registers m address count w of
            (r, m', w') \<Rightarrow> r = None \<and> mb_connected m' \<and> mb_socket m' = Some t \<and> t \<notin> closed w'"
  proof (cases "build_modbus_request ?m1 0x03 address count")
    case (Inl e)
    then show ?thesis using assms by (simp add: read_holding_registers_def)
  next
    case (Inr request)
    obtain w' where "transact (Some t) request w = (Inl OSError, w')" "closed w' = closed w"
      using tr by blast
    then show ?thesis using assms Inr by (simp add: read_holding_registers_def)
  qed
  have d: "case write_single_register m address v w of
            (r, m', w') \<Rightarrow> r = False \<and> mb_connected m' \<and> mb_socket m' = Some t \<and> t \<notin> closed w'"
  proof (cases "build_modbus_request ?m1 0x06 address v")
    case (Inl e)
    then show ?thesis using assms by (simp add: write_single_register_def)
  next
    case (Inr request)
    obtain w' where "transact (Some t) request w = (Inl OSError, w')" "closed w' = closed w"
      using tr by blast
    then show ?thesis using assms Inr by (simp add: write_single_register_def)
  qed
  have e: "case write_multiple_registers m address vs w of
            (r, m', w') \<Rightarrow> r = False \<and> mb_connected m' \<and> mb_socket m' = Some t \<and> t \<notin> closed w'"
  proof (cases "build_modbus_write_multiple_request ?m1 address vs")
    case (Inl e)
    then show ?thesis using assms by (simp add: write_multiple_registers_def)
  next
    case (Inr request)
    obtain w' where "transact (Some t) request w = (Inl OSError, w')" "closed w' = closed w"
      using tr by blast
    then show ?thesis using assms Inr by (simp add: write_multiple_registers_def)
  qed
  from a b c d e show ?thesis by blast
qed

theorem failed_exchange_keeps_connection_witness:
  "replies (snd (snd (two_clients [RecvError]))) (n_exch (snd (snd (two_clients [RecvError])))) = RecvError
   \<and> s7_connected (fst (two_clients [RecvError]))
   \<and> s7_socket (fst (two_clients [RecvError])) = Some 0
   \<and> 0 \<notin> closed (snd (snd (two_clients [RecvError])))
   \<and> mb_connected (fst (snd (two_clients [RecvError])))
   \<and> mb_socket (fst (snd (two_clients [RecvError]))) = Some 1
   \<and> 1 \<notin> closed (snd (snd (two_clients [RecvError])))
   \<and> fst (write_single_register (fst (snd (two_clients [RecvError]))) 1000 1
             (snd (snd (two_clients [RecvError])))) = False
   \<and> mb_connected (fst (snd (write_single_register (fst (snd (two_clients [RecvError]))) 1000 1
             (snd (snd (two_clients [RecvError]))))))"
proof -
  let ?c = "fst (two_clients [RecvError])"
  let ?m = "fst (snd (two_clients [RecvError]))"
  let ?w = "snd (snd (two_clients [RecvError]))"
  have h1: "replies ?w (n_exch ?w) = SendError \<or> replies ?w (n_exch ?w) = RecvError" by code_simp
  have h1': "replies ?w (n_exch ?w) = RecvError" by code_simp
  have h2: "s7_connected ?c" by code_simp
  have h3: "s7_socket ?c = Some 0" by code_simp
  have h4: "0 \<notin> closed ?w" by code_simp
  have h5: "mb_connected ?m" by code_simp
  have h6: "mb_socket ?m = Some 1" by code_simp
  have h7: "1 \<notin> closed ?w" by code_simp
  from failed_exchange_keeps_connection [OF h1 h2 h3 h4 h5 h6 h7, where db_number = 1 and start = 0 and sz = 4 and data = "[]"
      and address = 1000 and count = 1 and v = 1 and vs = "[]"]
  have "case write_single_register ?m 1000 1 ?w of
          (r, m', w') \<Rightarrow> r = False \<and> mb_connected m' \<and> mb_socket m' = Some 1 \<and> 1 \<notin> closed w'"
    by (elim conjE) assumption
  then have "fst (write_single_register ?m 1000 1 ?w) = False
      \<and> mb_connected (fst (snd (write_single_register ?m 1000 1 ?w)))"
    by (simp add: case_prod_beta)
  with h1' h2 h3 h4 h5 h6 h7 show ?thesis by blast
qed

section \<open>C9: Modbus transaction ids\<close>

lemma mb_perform_effect:
  assumes "mb_perform rq c w = (c', w')"
  shows "mb_connected c' = mb_connected c
       \<and> transaction_id c' = (if mb_connected c then transaction_id c + 1 else transaction_id c)
       \<and> (\<exists>new. wire w' = wire w @ new \<and> length new \<le> 1 \<and> (new \<noteq> [] \<longrightarrow> mb_connected c)
              \<and> (\<forall>f\<in>set (map snd new). wire_tid f = transaction_id c + 1))"
proof (cases rq)
  case (ReadHoldingRegisters address count)
  show ?thesis
  proof (cases "mb_connected c")
    case False
    then show ?thesis using assms ReadHoldingRegisters by (simp add: read_holding_registers_def)
  next
    case True
    let ?c1 = "c\<lparr>transaction_id := transaction_id c + 1\<rparr>"
    show ?thesis
    proof (cases "build_modbus_request ?c1 0x03 address count")
      case (Inl e)
      then show ?thesis using assms ReadHoldingRegisters True
        by (auto simp: read_holding_registers_def)
    next
      case (Inr request)
      obtain r w1 where t: "transact (mb_socket c) request w = (r, w1)" by (cases "transact (mb_socket c) request w")
      have w1: "w' = w1" and c1: "c' = ?c1"
        using assms ReadHoldingRegisters True Inr t
        by (auto simp: read_holding_registers_def Let_def split: sum.splits)
      have "wire_tid request = transaction_id c + 1"
        using build_modbus_request_tid [OF Inr] by simp
      then show ?thesis using transact_wire [OF t] w1 c1 True by auto
    qed
  qed
next
  case (WriteSingleRegister address v)
  show ?thesis
  proof (cases "mb_connected c")
    case False
    then show ?thesis using assms WriteSingleRegister by (simp add: write_single_register_def)
  next
    case True
    let ?c1 = "c\<lparr>transaction_id := transaction_id c + 1\<rparr>"
    show ?thesis
    proof (cases "build_modbus_request ?c1 0x06 address v")
      case (Inl e)
      then show ?thesis using assms WriteSingleRegister True
        by (auto simp: write_single_register_def)
    next
      case (Inr request)
      obtain r w1 where t: "transact (mb_socket c) request w = (r, w1)" by (cases "transact (mb_socket c) request w")
      have w1: "w' = w1" and c1: "c' = ?c1"
        using assms WriteSingleRegister True Inr t
        by (auto simp: write_single_register_def Let_def split: sum.splits)
      have "wire_tid request = transaction_id c + 1"
        using build_modbus_request_tid [OF Inr] by simp
      then show ?thesis using transact_wire [OF t] w1 c1 True by auto
    qed
  qed
next
  case (WriteMultipleRegisters address vs)
  show ?thesis
  proof (cases "mb_connected c")
    case False
    then show ?thesis using assms WriteMultipleRegisters by (simp add: write_multiple_registers_def)
  next
    case True
    let ?c1 = "c\<lparr>transaction_id := transaction_id c + 1\<rparr>"
    show ?thesis
    proof (cases "build_modbus_write_multiple_request ?c1 address vs")
      case (Inl e)
      then show ?thesis using assms WriteMultipleRegisters True
        by (auto simp: write_multiple_registers_def)
    next
      case (Inr request)
      obtain r w1 where t: "transact (mb_socket c) request w = (r, w1)" by (cases "transact (mb_socket c) request w")
      have w1: "w' = w1" and c1: "c' = ?c1"
        using assms WriteMultipleRegisters True Inr t
        by (auto simp: write_multiple_registers_def Let_def split: sum.splits)
      have "wire_tid request = transaction_id c + 1"
        using build_modbus_write_multiple_request_tid [OF Inr] by simp
      then show ?thesis using transact_wire [OF t] w1 c1 True by auto
    qed
  qed
qed

lemma mb_run_effect:
  "mb_run rqs c w = (c', w') \<Longrightarrow>
     transaction_id c \<le> transaction_id c'
     \<and> (\<exists>new. wire w' = wire w @ new
            \<and> sorted_wrt (<) (map wire_tid (map snd new))
            \<and> (\<forall>f\<in>set (map snd new). transaction_id c < wire_tid f \<and> wire_tid f \<le> transaction_id c'))"
proof (induction rqs arbitrary: c w)
  case Nil
  then show ?case by simp
next
  case (Cons rq rqs)
  obtain c1 w1 where step: "mb_perform rq c w = (c1, w1)" by (cases "mb_perform rq c w")
  then have rest: "mb_run rqs c1 w1 = (c', w')" using Cons.prems by simp
  from mb_perform_effect [OF step] obtain new1 where
    tid1: "transaction_id c1 = (if mb_connected c then transaction_id c + 1 else transaction_id c)"
    and wire1: "wire w1 = wire w @ new1"
    and len1: "length new1 \<le> 1"
    and conn1: "new1 \<noteq> [] \<longrightarrow> mb_connected c"
    and new1: "\<forall>f\<in>set (map snd new1). wire_tid f = transaction_id c + 1"
    by blast
  from Cons.IH [OF rest] obtain new2 where
    le2: "transaction_id c1 \<le> transaction_id c'"
    and wire2: "wire w' = wire w1 @ new2"
    and sorted2: "sorted_wrt (<) (map wire_tid (map snd new2))"
    and new2: "\<forall>f\<in>set (map snd new2). transaction_id c1 < wire_tid f \<and> wire_tid f \<le> transaction_id c'"
    by blast
  have le: "transaction_id c \<le> transaction_id c'" using tid1 le2 by (simp split: if_splits)
  have wire: "wire w' = wire w @ (new1 @ new2)" using wire1 wire2 by simp
  have "sorted_wrt (<) (map wire_tid (map snd (new1 @ new2)))
      \<and> (\<forall>f\<in>set (map snd (new1 @ new2)). transaction_id c < wire_tid f \<and> wire_tid f \<le> transaction_id c')"
  proof (cases new1)
    case Nil
    then show ?thesis using sorted2 new2 tid1 by (auto split: if_splits)
  next
    case (Cons x xs)
    then have xs: "xs = []" using len1 by simp
    have conn: "mb_connected c" using conn1 Cons by simp
    have x: "wire_tid (snd x) = transaction_id c1" using new1 Cons tid1 conn by simp
    have c1: "transaction_id c1 = transaction_id c + 1" using tid1 conn by simp
    show ?thesis using Cons xs x c1 sorted2 new2 le2 by auto
  qed
  with le wire show ?case by blast
qed

text \<open>
  Claim C9. On a connected client each of the three request methods increments the
  transaction id by exactly one, and a frame it sends carries the incremented id. Over
  any sequence of requests on one client, the transaction ids of the frames sent, read
  back from the wire, increase strictly.
\<close>

theorem transaction_ids_increase:
  "(mb_connected c \<longrightarrow>
      transaction_id (fst (mb_perform rq c w)) = transaction_id c + 1
      \<and> (\<forall>f\<in>set (sent_between w (snd (mb_perform rq c w))). wire_tid f = transaction_id c + 1))
   \<and> sorted_wrt (<) (map wire_tid (sent_between w (snd (mb_run rqs c w))))"
proof -
  obtain c1 w1 where step: "mb_perform rq c w = (c1, w1)" by (cases "mb_perform rq c w")
  obtain c2 w2 where run: "mb_run rqs c w = (c2, w2)" by (cases "mb_run rqs c w")
  from mb_perform_effect [OF step] have a: "mb_connected c \<longrightarrow>
      transaction_id c1 = transaction_id c + 1
      \<and> (\<forall>f\<in>set (sent_between w w1). wire_tid f = transaction_id c + 1)"
    by (auto simp: sent_between_def)
  from mb_run_effect [OF run] have b: "sorted_wrt (<) (map wire_tid (sent_between w w2))"
    by (auto simp: sent_between_def)
  from a b step run show ?thesis by simp
qed

theorem transaction_ids_increase_witness:
  "mb_connected (fst (connected_mb [Reply [0, 1, 0, 0, 0, 5, 1, 3, 2, 0, 230], RecvError, Reply []]))
   \<and> transaction_id (fst (mb_perform (ReadHoldingRegisters 1000 1)
        (fst (connected_mb [Reply [0, 1, 0, 0, 0, 5, 1, 3, 2, 0, 230], RecvError, Reply []]))
        (snd (connected_mb [Reply [0, 1, 0, 0, 0, 5, 1, 3, 2, 0, 230], RecvError, Reply []])))) = 1
   \<and> map wire_tid (sent_between
        (snd (connected_mb [Reply [0, 1, 0, 0, 0, 5, 1, 3, 2, 0, 230], RecvError, Reply []]))
        (snd (mb_run [ReadHoldingRegisters 1000 1, WriteSingleRegister 1000 1,
                      WriteSingleRegister 70000 1, WriteMultipleRegisters 10 [1, 2]]
           (fst (connected_mb [Reply [0, 1, 0, 0, 0, 5, 1, 3, 2, 0, 230], RecvError, Reply []]))
           (snd (connected_mb [Reply [0, 1, 0, 0, 0, 5, 1, 3, 2, 0, 230], RecvError, Reply []])))))
       = [1, 2, 4]"
proof -
  let ?xs = "[Reply [0, 1, 0, 0, 0, 5, 1, 3, 2, 0, 230], RecvError, Reply []]"
  let ?c = "fst (connected_mb ?xs)"
  let ?w = "snd (connected_mb ?xs)"
  let ?rqs = "[ReadHoldingRegisters 1000 1, WriteSingleRegister 1000 1,
               WriteSingleRegister 70000 1, WriteMultipleRegisters 10 [1, 2]]"
  have h: "mb_connected ?c" by code_simp
  have t: "transaction_id ?c = 0" by code_simp
  have e: "map wire_tid (sent_between ?w (snd (mb_run ?rqs ?c ?w))) = [1, 2, 4]" by code_simp
  from transaction_ids_increase [of ?c "ReadHoldingRegisters 1000 1" ?w ?rqs] h t
  have "transaction_id (fst (mb_perform (ReadHoldingRegisters 1000 1) ?c ?w)) = 1" by simp
  with h e show ?thesis by blast
qed

section \<open>C5: a failed connect registers nothing\<close>

lemma s7_connect_fails:
  assumes "\<not> tcp_accepts w (n_socks w)
       \<or> (case replies w (n_exch w) of
             Reply r \<Rightarrow> \<not> (6 \<le> length (take 1024 r) \<and> take 1024 r ! 5 = 0xD0)
           | _ \<Rightarrow> True)"
  shows "fst (s7_connect (SiemensS7Client ip) w) = False"
  using assms
  by (auto simp: s7_connect_def socket_connect_def Let_def send_connection_request_def
        transact_def s7_disconnect_def SiemensS7Client_def
        split: exchange.splits prod.splits bool.splits)

lemma mb_connect_fails:
  "\<not> tcp_accepts w (n_socks w) \<Longrightarrow> fst (mb_connect c w) = False"
  by (simp add: mb_connect_def socket_connect_def Let_def split: prod.splits)

text \<open>
  Claim C5. When the connect attempt for a factory fails (the TCP connect raises, for
  instance on a timeout, or, for a Siemens controller, the handshake exchange raises or
  its answer is not a connection confirm), the call reports \<open>False\<close> for that factory
  and the three registry dictionaries are left as they were; in particular a factory
  that had no entry still has none.
\<close>

theorem failed_connect_registers_nothing:
  assumes "factories factory_id = Some fac"
    and "truthy_str (plc_type fac)" and "truthy_str (plc_ip fac)"
    and "startswith (the (plc_type fac)) ''siemens'' \<or> startswith (the (plc_type fac)) ''schneider''"
    and "\<not> tcp_accepts w (n_socks w)
       \<or> (startswith (the (plc_type fac)) ''siemens''
           \<and> (case replies w (n_exch w) of
                 Reply r \<Rightarrow> \<not> (6 \<le> length (take 1024 r) \<and> take 1024 r ! 5 = 0xD0)
               | _ \<Rightarrow> True))"
  shows "case connect_to_factory_plcs factories utcnow sv factory_id w of
           (results, sv', w') \<Rightarrow>
             results factory_id = Some False
             \<and> siemens_clients sv' = siemens_clients sv
             \<and> schneider_clients sv' = schneider_clients sv
             \<and> active_connections sv' = active_connections sv
             \<and> (active_connections sv factory_id = None \<longrightarrow> active_connections sv' factory_id = None)"
proof (cases "startswith (the (plc_type fac)) ''siemens''")
  case True
  have "fst (s7_connect (SiemensS7Client (the (plc_ip fac))) w) = False"
    using assms(5) by (intro s7_connect_fails) auto
  then obtain client w1 where "s7_connect (SiemensS7Client (the (plc_ip fac))) w = (False, client, w1)"
    by (cases "s7_connect (SiemensS7Client (the (plc_ip fac))) w") auto
  then show ?thesis
    using assms(1-3) True by (simp add: connect_to_factory_plcs_def Let_def)
next
  case False
  then have sch: "startswith (the (plc_type fac)) ''schneider''" and tcp: "\<not> tcp_accepts w (n_socks w)"
    using assms(4,5) by auto
  let ?port = "case plc_port fac of None \<Rightarrow> 502 | Some p \<Rightarrow> if p = 0 then 502 else p"
  have "fst (mb_connect (SchneiderModiconClient (the (plc_ip fac)) ?port) w) = False"
    using tcp by (rule mb_connect_fails)
  then obtain client w1 where
    "mb_connect (SchneiderModiconClient (the (plc_ip fac)) ?port) w = (False, client, w1)"
    by (cases "mb_connect (SchneiderModiconClient (the (plc_ip fac)) ?port) w") auto
  then show ?thesis
    using assms(1-3) False sch by (simp add: connect_to_factory_plcs_def Let_def)
qed

theorem failed_connect_registers_nothing_witness:
  "example_factories ''F1'' =
     Some \<lparr>plc_type = Some ''siemens_s7_1500'', plc_ip = Some ''10.0.0.5'', plc_port = None\<rparr>
   \<and> startswith ''siemens_s7_1500'' ''siemens''
   \<and> replies (scripted_world [True] [RecvError]) (n_exch (scripted_world [True] [RecvError])) = RecvError
   \<and> fst (connect_to_factory_plcs example_factories 0 PLCIntegrationService ''F1''
             (scripted_world [True] [RecvError])) ''F1'' = Some False
   \<and> active_connections (fst (snd (connect_to_factory_plcs example_factories 0
         PLCIntegrationService ''F1'' (scripted_world [True] [RecvError])))) ''F1'' = None"
proof -
  let ?fac = "\<lparr>plc_type = Some ''siemens_s7_1500'', plc_ip = Some ''10.0.0.5'', plc_port = None\<rparr>"
  let ?w = "scripted_world [True] [RecvError]"
  have h1: "example_factories ''F1'' = Some ?fac" by (simp add: example_factories_def)
  have h2: "truthy_str (plc_type ?fac)" by (simp add: truthy_str_def)
  have h3: "truthy_str (plc_ip ?fac)" by (simp add: truthy_str_def)
  have s: "startswith ''siemens_s7_1500'' ''siemens''" by (simp add: startswith_def)
  then have h4: "startswith (the (plc_type ?fac)) ''siemens'' \<or> startswith (the (plc_type ?fac)) ''schneider''"
    by simp
  have r: "replies ?w (n_exch ?w) = RecvError" by (simp add: scripted_world_def)
  then have h5: "\<not> tcp_accepts ?w (n_socks ?w)
       \<or> (startswith (the (plc_type ?fac)) ''siemens''
           \<and> (case replies ?w (n_exch ?w) of
                 Reply r \<Rightarrow> \<not> (6 \<le> length (take 1024 r) \<and> take 1024 r ! 5 = 0xD0)
               | _ \<Rightarrow> True))"
    using s by simp
  have n: "active_connections PLCIntegrationService ''F1'' = None"
    by (simp add: PLCIntegrationService_def)
  from failed_connect_registers_nothing
         [where factories = example_factories and factory_id = "''F1''" and fac = ?fac and w = ?w
            and utcnow = 0 and sv = PLCIntegrationService, OF h1 h2 h3 h4 h5] n
  have "fst (connect_to_factory_plcs example_factories 0 PLCIntegrationService ''F1'' ?w) ''F1'' = Some False
      \<and> active_connections (fst (snd (connect_to_factory_plcs example_factories 0
            PLCIntegrationService ''F1'' ?w))) ''F1'' = None"
    by (simp add: case_prod_beta)
  with h1 s r show ?thesis by blast
qed

section \<open>C1: connecting a factory that is already connected\<close>

text \<open>
  Claim C1 as stated fails. Factory \<open>F1\<close> is connected (its connection holds client 0);
  a second call whose connect succeeds registers a different client (client 1) in its
  place, and a second call whose connect is refused reports \<open>False\<close>.
\<close>

theorem reconnect_counterexample:
  "map_option conn_client
     (active_connections (fst (connected_service ''F1'' [True, True] [Reply cc_accept, Reply cc_accept]))
        ''F1'') = Some 0
   \<and> map_option conn_client
     (active_connections
        (fst (snd (connect_to_factory_plcs example_factories 5
           (fst (connected_service ''F1'' [True, True] [Reply cc_accept, Reply cc_accept])) ''F1''
           (snd (connected_service ''F1'' [True, True] [Reply cc_accept, Reply cc_accept])))))
        ''F1'') = Some 1
   \<and> fst (connect_to_factory_plcs example_factories 5
           (fst (connected_service ''F1'' [True, False] [Reply cc_accept])) ''F1''
           (snd (connected_service ''F1'' [True, False] [Reply cc_accept]))) ''F1'' = Some False"
  by code_simp

text \<open>
  Claim C1, as amended. For a factory that already has an active connection, a further
  call makes a new connect attempt and never looks at the existing entry. Afterwards
  the factory still has exactly one active connection. When the call reports \<open>True\<close>,
  that entry is a new connection: it refers to a newly created client, different from
  the one registered before, and carries the time of this call. When the call does not
  report \<open>True\<close> (the attempt failed, or none was made), the entry is the connection
  registered before and the registry is unchanged.
\<close>

theorem reconnect_replaces_or_keeps:
  assumes "active_connections sv factory_id = Some conn" and "conn_client conn < next_ref sv"
  shows "case connect_to_factory_plcs factories utcnow sv factory_id w of
           (results, sv', w') \<Rightarrow>
             (\<exists>conn'. active_connections sv' factory_id = Some conn'
                \<and> (results factory_id = Some True \<longrightarrow>
                      conn_client conn' = next_ref sv \<and> conn_client conn' \<noteq> conn_client conn
                      \<and> connected_at conn' = utcnow)
                \<and> (results factory_id \<noteq> Some True \<longrightarrow>
                      conn' = conn
                      \<and> active_connections sv' = active_connections sv
                      \<and> siemens_clients sv' = siemens_clients sv
                      \<and> schneider_clients sv' = schneider_clients sv))"
  using assms
  by (auto simp: connect_to_factory_plcs_def Let_def split: option.splits prod.splits)

theorem reconnect_replaces_or_keeps_witness:
  "active_connections (fst (connected_service ''F1'' [True, True] [Reply cc_accept, Reply cc_accept])) ''F1''
     = Some \<lparr>conn_type = ''siemens'', conn_client = 0, connected_at = 0\<rparr>
   \<and> 0 < next_ref (fst (connected_service ''F1'' [True, True] [Reply cc_accept, Reply cc_accept]))
   \<and> fst (connect_to_factory_plcs example_factories 5
           (fst (connected_service ''F1'' [True, True] [Reply cc_accept, Reply cc_accept])) ''F1''
           (snd (connected_service ''F1'' [True, True] [Reply cc_accept, Reply cc_accept]))) ''F1''
       = Some True
   \<and> map_option connected_at
       (active_connections
          (fst (snd (connect_to_factory_plcs example_factories 5
             (fst (connected_service ''F1'' [True, True] [Reply cc_accept, Reply cc_accept])) ''F1''
             (snd (connected_service ''F1'' [True, True] [Reply cc_accept, Reply cc_accept])))))
          ''F1'') = Some 5"
proof -
  let ?sv = "fst (connected_service ''F1'' [True, True] [Reply cc_accept, Reply cc_accept])"
  let ?w = "snd (connected_service ''F1'' [True, True] [Reply cc_accept, Reply cc_accept])"
  let ?conn = "\<lparr>conn_type = ''siemens'', conn_client = 0, connected_at = 0\<rparr>"
  have h1: "active_connections ?sv ''F1'' = Some ?conn" by code_simp
  have n: "0 < next_ref ?sv" by code_simp
  then have h2: "conn_client ?conn < next_ref ?sv" by simp
  have r: "fst (connect_to_factory_plcs example_factories 5 ?sv ''F1'' ?w) ''F1'' = Some True"
    by code_simp
  from reconnect_replaces_or_keeps
         [where sv = ?sv and factory_id = "''F1''" and conn = ?conn and factories = example_factories
            and utcnow = 5 and w = ?w, OF h1 h2] r
  have "map_option connected_at
          (active_connections (fst (snd (connect_to_factory_plcs example_factories 5 ?sv ''F1'' ?w)))
             ''F1'') = Some 5"
    by (auto simp: case_prod_beta)
  with h1 n r show ?thesis by blast
qed

section \<open>C2: a batch of sensor reads\<close>

text \<open>
  Claim C2 fails on the Siemens path. Both sensors are configured as \<open>real\<close>. The
  read of \<open>temperature\<close> succeeds; the read of \<open>vibration\<close> returns 2 bytes, which
  \<^verbatim>\<open>struct.unpack('>f', raw_data)\<close> refuses. The exception leaves the loop, the
  service catches it and returns \<open>None\<close>: the reading of \<open>temperature\<close> is lost with
  it. With \<open>temperature\<close> alone, or when the second read times out instead, the
  result holds the reading of \<open>temperature\<close>.
\<close>

theorem undecodable_payload_aborts_batch:
  "fst (read_sensor_data_from_plc (fst (connected_service ''F1'' [True] short_payload_script))
          ''F1'' ''M1'' [(''temperature'', temperature_cfg), (''vibration'', vibration_cfg)] 7
          (snd (connected_service ''F1'' [True] short_payload_script))) = None
   \<and> fst (read_sensor_data_from_plc (fst (connected_service ''F1'' [True] short_payload_script))
          ''F1'' ''M1'' [(''temperature'', temperature_cfg)] 7
          (snd (connected_service ''F1'' [True] short_payload_script)))
       = Some [(''temperature'',
                \<lparr>rd_value = FloatOfBits 0x41C80000, rd_unit = ''C'', rd_timestamp = 7\<rparr>)]
   \<and> fst (read_sensor_data_from_plc
            (fst (connected_service ''F1'' [True]
               [Reply cc_accept, Reply (s7_response 0xFF 4 [0x41, 0xC8, 0x00, 0x00]), RecvError]))
          ''F1'' ''M1'' [(''temperature'', temperature_cfg), (''vibration'', vibration_cfg)] 7
          (snd (connected_service ''F1'' [True]
               [Reply cc_accept, Reply (s7_response 0xFF 4 [0x41, 0xC8, 0x00, 0x00]), RecvError])))
       = Some [(''temperature'',
                \<lparr>rd_value = FloatOfBits 0x41C80000, rd_unit = ''C'', rd_timestamp = 7\<rparr>)]"
  by code_simp

section \<open>Facts about the encoding of an alert\<close>




section \<open>C10: an alert without a known severity\<close>

lemma severity_value_default:
  assumes "alert_data ''severity'' \<noteq> Some PyList" and "alert_data ''severity'' \<noteq> Some PyDict"
    and "\<forall>name\<in>set [''low'', ''medium'', ''high'', ''critical'']. alert_data ''severity'' \<noteq> Some (PyStr name)"
  shows "severity_value alert_data = Inr 1"
proof (cases "alert_data ''severity''")
  case None
  then show ?thesis by (simp add: severity_value_def severity_map_def)
next
  case (Some x)
  show ?thesis
  proof (cases x)
    case (PyStr name)
    then have "name \<noteq> ''low''" "name \<noteq> ''medium''" "name \<noteq> ''high''" "name \<noteq> ''critical''"
      using assms(3) Some by auto
    then show ?thesis using Some PyStr by (simp add: severity_value_def severity_map_def)
  qed (use assms Some in \<open>simp_all add: severity_value_def\<close>)
qed

lemma severity_value_unhashable:
  "alert_data ''severity'' = Some PyList \<or> alert_data ''severity'' = Some PyDict \<Longrightarrow>
   severity_value alert_data = Inl TypeError"
  by (auto simp: severity_value_def)

text \<open>
  Claim C10 as stated fails for a severity that is a JSON array: the dictionary lookup
  raises \<^verbatim>\<open>TypeError\<close> (unhashable), \<open>write_alert_to_plc\<close> catches it and returns
  \<open>False\<close>, and nothing is sent; the same alert with severity \<open>low\<close> is written.
\<close>

theorem unhashable_severity_counterexample:
  "fst (write_alert_to_plc (fst (connected_service ''F1'' [True] [Reply cc_accept, Reply (s7_response 0xFF 0 [])]))
          ''F1'' [''severity'' \<mapsto> PyList]
          (snd (connected_service ''F1'' [True] [Reply cc_accept, Reply (s7_response 0xFF 0 [])]))) = False
   \<and> sent_between (snd (connected_service ''F1'' [True] [Reply cc_accept, Reply (s7_response 0xFF 0 [])]))
        (snd (snd (write_alert_to_plc
           (fst (connected_service ''F1'' [True] [Reply cc_accept, Reply (s7_response 0xFF 0 [])]))
           ''F1'' [''severity'' \<mapsto> PyList]
           (snd (connected_service ''F1'' [True] [Reply cc_accept, Reply (s7_response 0xFF 0 [])]))))) = []
   \<and> fst (write_alert_to_plc (fst (connected_service ''F1'' [True] [Reply cc_accept, Reply (s7_response 0xFF 0 [])]))
          ''F1'' [''severity'' \<mapsto> PyStr ''low'']
          (snd (connected_service ''F1'' [True] [Reply cc_accept, Reply (s7_response 0xFF 0 [])]))) = True"
  by code_simp

text \<open>
  Claim C10, as amended. When the severity of an alert is missing, or is a string other
  than the four names, or is a number, a boolean or null, the severity value is 1 and
  \<open>write_alert_to_plc\<close> does exactly what it does for severity \<open>low\<close>: same result, same
  frames on the wire, for either vendor; the alert is not rejected. When the severity is
  a JSON array or object, \<open>write_alert_to_plc\<close> returns \<open>False\<close> and sends nothing.
\<close>

theorem unknown_severity_encodes_low:
  "(alert_data ''severity'' \<noteq> Some PyList \<and> alert_data ''severity'' \<noteq> Some PyDict
      \<and> (\<forall>name\<in>set [''low'', ''medium'', ''high'', ''critical'']. alert_data ''severity'' \<noteq> Some (PyStr name))
     \<longrightarrow> severity_value alert_data = Inr 1
         \<and> write_alert_to_plc sv factory_id alert_data w
             = write_alert_to_plc sv factory_id [''severity'' \<mapsto> PyStr ''low''] w)
   \<and> (alert_data ''severity'' = Some PyList \<or> alert_data ''severity'' = Some PyDict
     \<longrightarrow> fst (write_alert_to_plc sv factory_id alert_data w) = False
         \<and> snd (snd (write_alert_to_plc sv factory_id alert_data w)) = w)"
proof -
  have low: "severity_value [''severity'' \<mapsto> PyStr ''low''] = Inr 1"
    by (simp add: severity_value_def severity_map_def)
  have a: "write_alert_to_plc sv factory_id alert_data w
             = write_alert_to_plc sv factory_id [''severity'' \<mapsto> PyStr ''low''] w"
    if sev: "severity_value alert_data = Inr 1"
  proof -
    have s: "write_siemens_alert client alert_data w
               = write_siemens_alert client [''severity'' \<mapsto> PyStr ''low''] w" for client
      by (simp add: write_siemens_alert_def sev low)
    have m: "write_schneider_alert client alert_data w
               = write_schneider_alert client [''severity'' \<mapsto> PyStr ''low''] w" for client
      by (simp add: write_schneider_alert_def sev low)
    show ?thesis unfolding write_alert_to_plc_def s m by (rule refl)
  qed
  have b: "fst (write_alert_to_plc sv factory_id alert_data w) = False
         \<and> snd (snd (write_alert_to_plc sv factory_id alert_data w)) = w"
    if sev: "severity_value alert_data = Inl TypeError"
  proof -
    have s: "write_siemens_alert client alert_data w = (Inl TypeError, client, w)" for client
      by (simp add: write_siemens_alert_def sev)
    have m: "write_schneider_alert client alert_data w = (Inl TypeError, client, w)" for client
      by (simp add: write_schneider_alert_def sev)
    show ?thesis
      by (simp add: write_alert_to_plc_def s m split: option.splits client_obj.splits)
  qed
  show ?thesis using a b severity_value_default severity_value_unhashable by blast
qed

theorem unknown_severity_encodes_low_witness:
  "[''severity'' \<mapsto> PyStr ''urgent''] ''severity'' \<noteq> Some PyList
   \<and> [''severity'' \<mapsto> PyStr ''urgent''] ''severity'' \<noteq> Some PyDict
   \<and> [''severity'' \<mapsto> PyStr ''urgent''] ''severity'' \<noteq> Some (PyStr ''low'')
   \<and> [''severity'' \<mapsto> PyStr ''urgent''] ''severity'' \<noteq> Some (PyStr ''medium'')
   \<and> [''severity'' \<mapsto> PyStr ''urgent''] ''severity'' \<noteq> Some (PyStr ''high'')
   \<and> [''severity'' \<mapsto> PyStr ''urgent''] ''severity'' \<noteq> Some (PyStr ''critical'')
   \<and> severity_value [''severity'' \<mapsto> PyStr ''urgent''] = Inr 1
   \<and> write_alert_to_plc (fst (two_factories [Reply write_ack, Reply write_ack])) ''F2''
        [''severity'' \<mapsto> PyStr ''urgent''] (snd (two_factories [Reply write_ack, Reply write_ack]))
      = write_alert_to_plc (fst (two_factories [Reply write_ack, Reply write_ack])) ''F2''
        [''severity'' \<mapsto> PyStr ''low''] (snd (two_factories [Reply write_ack, Reply write_ack]))"
proof -
  let ?a = "[''severity'' \<mapsto> PyStr ''urgent'']"
  have h: "?a ''severity'' \<noteq> Some PyList \<and> ?a ''severity'' \<noteq> Some PyDict
      \<and> (\<forall>name\<in>set [''low'', ''medium'', ''high'', ''critical'']. ?a ''severity'' \<noteq> Some (PyStr name))"
    by simp
  from unknown_severity_encodes_low
         [of ?a "fst (two_factories [Reply write_ack, Reply write_ack])" "''F2''"
             "snd (two_factories [Reply write_ack, Reply write_ack])"] h
  show ?thesis by simp
qed

section \<open>C6: what an alert puts on the wire\<close>









section \<open>C8: round trips of the byte codec\<close>


























end
